theory Spec2Isabelle
  imports Main "HOL-Library.Word" "HOL-Library.AList"
begin

section \<open>AsarVersioner: reading one JSON entry out of an asar archive\<close>

text \<open>
  The development follows \<^verbatim>\<open>SharedProcessors/AsarVersioner.py\<close>. The processor opens
  an asar archive, reads the size field at bytes 4..7, reads the JSON header that
  starts at byte 16, looks one entry up in the header's \<^verbatim>\<open>files\<close> table, reads the
  entry's bytes and decodes them as JSON.

  Python values are modelled as follows.
  \<^item> \<^verbatim>\<open>bytes\<close> is a list of 8-bit words.
  \<^item> \<^verbatim>\<open>str\<close> is a \<open>string\<close> holding the UTF-8 encoding of the text (a lone
    surrogate is held as its three-byte generalised encoding), so that two Python
    strings are equal exactly when their models are.
  \<^item> \<^verbatim>\<open>int\<close> is \<open>int\<close>.
  \<^item> an exception is a value of \<open>exn\<close>; a computation returns \<open>Inl\<close> of the
    exception it raises or \<open>Inr\<close> of its value.
\<close>

subsection \<open>Values\<close>

type_synonym byte = "8 word"
type_synonym bytes = "byte list"

text \<open>
  What \<^verbatim>\<open>json.loads\<close> returns. A \<^verbatim>\<open>dict\<close> is an association list with distinct
  keys in insertion order. A \<^verbatim>\<open>float\<close> is kept as the number literal it was read
  from (\<open>NaN\<close>, \<open>Infinity\<close> and \<open>-Infinity\<close> included).
\<close>

datatype json =
    JNull
  | JBool bool
  | JInt int
  | JFloat string
  | JString string
  | JArray "json list"
  | JObject "(string \<times> json) list"

text \<open>
  The exceptions the code can meet. \<open>ProcessorError prefix cause\<close> is autopkglib's
  \<^verbatim>\<open>ProcessorError\<close> whose message is \<open>prefix\<close> followed by the text of \<open>cause\<close>
  (the f-strings of the source end in \<^verbatim>\<open>{error}\<close>); the cause is kept as the exception
  itself. \<open>NameError\<close> stands for \<^verbatim>\<open>UnboundLocalError\<close> too, which is a subclass of it;
  \<open>StructError\<close> is \<^verbatim>\<open>struct.error\<close>.
\<close>

datatype exn =
    OSError
  | StructError
  | ValueError
  | TypeError
  | OverflowError
  | MemoryError
  | AttributeError
  | KeyError string
  | NameError string
  | UnicodeDecodeError
  | JSONDecodeError
  | ProcessorError string "exn option"

subsection \<open>Files\<close>

text \<open>
  An open binary file (\<^verbatim>\<open>io.BufferedReader\<close>) has the bytes of the file, a position and
  a closed flag. A method of the file object takes the object and returns its outcome
  with the object as the method leaves it.
\<close>

record file_obj =
  content :: bytes
  pos :: nat
  closed :: bool

type_synonym 'a fio = "file_obj \<Rightarrow> (exn + 'a) \<times> file_obj"

text \<open>
  \<^verbatim>\<open>f.seek(target)\<close>: a target that does not fit a 64-bit offset and a closed file raise
  \<^verbatim>\<open>ValueError\<close>, a negative target raises \<^verbatim>\<open>OSError\<close> (EINVAL); a target past the end
  of the file is accepted.
\<close>

definition seek :: "int \<Rightarrow> int fio" where
  "seek target f =
     (if target < - (2 ^ 63) \<or> 2 ^ 63 \<le> target then (Inl ValueError, f)
      else if closed f then (Inl ValueError, f)
      else if target < 0 then (Inl OSError, f)
      else (Inr target, f\<lparr>pos := nat target\<rparr>))"

definition tell :: "int fio" where
  "tell f = (if closed f then (Inl ValueError, f) else (Inr (int (pos f)), f))"

text \<open>
  \<^verbatim>\<open>f.read(size)\<close> in a process that can allocate \<open>mem\<close> bytes. \<open>None\<close> and \<open>-1\<close>
  read to the end of the file, a size below \<open>-1\<close> raises \<^verbatim>\<open>ValueError\<close>, a size that
  does not fit \<^verbatim>\<open>Py_ssize_t\<close> raises \<^verbatim>\<open>OverflowError\<close>. For any other size the bytes of
  the result are allocated before the file is read: a size from \<open>2 ^ 63 - 33\<close> on
  raises \<^verbatim>\<open>OverflowError\<close> (the header of a \<^verbatim>\<open>bytes\<close> object takes 33 bytes), a size
  that the process cannot allocate raises \<^verbatim>\<open>MemoryError\<close>, and the position stays
  where it was. The model takes it that the bytes of the file fit in the memory
  of the process, whatever \<open>mem\<close> is: reading to the end of the file always succeeds,
  and so does the allocation of at most as many bytes as the file holds. When the
  allocation succeeds the bytes from the position on are returned, at most \<open>size\<close> of
  them and fewer when the file ends first; the position moves past them.
\<close>

definition room :: "nat \<Rightarrow> file_obj \<Rightarrow> nat" where
  "room mem f = max mem (length (content f))"

definition read :: "nat \<Rightarrow> int option \<Rightarrow> bytes fio" where
  "read mem sz f =
     (case sz of
        Some n \<Rightarrow>
          if n < - (2 ^ 63) \<or> 2 ^ 63 \<le> n then (Inl OverflowError, f)
          else if n < - 1 then (Inl ValueError, f)
          else if closed f then (Inl ValueError, f)
          else if n = - 1 then
            (let got = drop (pos f) (content f)
             in (Inr got, f\<lparr>pos := pos f + length got\<rparr>))
          else if 2 ^ 63 - 33 \<le> n then (Inl OverflowError, f)
          else if int (room mem f) < n then (Inl MemoryError, f)
          else
            (let got = take (nat n) (drop (pos f) (content f))
             in (Inr got, f\<lparr>pos := pos f + length got\<rparr>))
      | None \<Rightarrow>
          if closed f then (Inl ValueError, f)
          else
            (let got = drop (pos f) (content f)
             in (Inr got, f\<lparr>pos := pos f + length got\<rparr>)))"

text \<open>\<^verbatim>\<open>f.close()\<close> never fails; closing twice is allowed.\<close>

definition close :: "unit fio" where
  "close f = (Inr (), f\<lparr>closed := True\<rparr>)"

text \<open>
  The world holds the file system, every file object the process has created, in the
  order of their creation, and the number of bytes the process can allocate; a
  reference to a file object is its index. Nothing in the processor writes to a file,
  so \<open>files\<close> is only ever read.
\<close>

record world =
  files :: "string \<Rightarrow> bytes option"
  handles :: "file_obj list"
  memory :: nat

type_synonym 'a io = "world \<Rightarrow> (exn + 'a) \<times> world"

definition ret :: "'a \<Rightarrow> 'a io" where
  "ret x w = (Inr x, w)"

definition raise :: "exn \<Rightarrow> 'a io" where
  "raise e w = (Inl e, w)"

definition lift :: "exn + 'a \<Rightarrow> 'a io" where
  "lift r w = (r, w)"

text \<open>Sequencing: an exception in the first statement skips the rest.\<close>

definition bnd :: "'a io \<Rightarrow> ('a \<Rightarrow> 'b io) \<Rightarrow> 'b io" where
  "bnd m f w = (case m w of (Inl e, w') \<Rightarrow> (Inl e, w') | (Inr x, w') \<Rightarrow> f x w')"

text \<open>\<^verbatim>\<open>try: m  except Exception as error: h(error)\<close>\<close>

definition try_except :: "'a io \<Rightarrow> (exn \<Rightarrow> 'a io) \<Rightarrow> 'a io" where
  "try_except m h w = (case m w of (Inl e, w') \<Rightarrow> h e w' | (Inr x, w') \<Rightarrow> (Inr x, w'))"

text \<open>
  \<^verbatim>\<open>try: m  finally: fin\<close>. The finally block runs on both exits; an exception of its
  own replaces the outcome of \<open>m\<close>.
\<close>

definition try_finally :: "'a io \<Rightarrow> unit io \<Rightarrow> 'a io" where
  "try_finally m fin w =
     (case m w of (r, w') \<Rightarrow>
        (case fin w' of (Inl e, w'') \<Rightarrow> (Inl e, w'') | (Inr _, w'') \<Rightarrow> (r, w'')))"

text \<open>The world with one more file object.\<close>

definition new_handle :: "world \<Rightarrow> file_obj \<Rightarrow> world" where
  "new_handle w f = w\<lparr>handles := handles w @ [f]\<rparr>"

text \<open>\<^verbatim>\<open>open(path, 'rb')\<close>: a missing or unreadable path raises \<^verbatim>\<open>OSError\<close>.\<close>

definition open_rb :: "string \<Rightarrow> nat io" where
  "open_rb path w =
     (case files w path of
        None \<Rightarrow> (Inl OSError, w)
      | Some bs \<Rightarrow>
          (Inr (length (handles w)), new_handle w \<lparr>content = bs, pos = 0, closed = False\<rparr>))"

text \<open>
  \<open>at h m\<close> is the method call \<^verbatim>\<open>h.m\<close>: the method runs on the file object that \<open>h\<close>
  refers to. (A reference always comes from \<open>open_rb\<close>, so the index is in range.)
\<close>

definition at :: "nat \<Rightarrow> 'a fio \<Rightarrow> 'a io" where
  "at h m w =
     (if h < length (handles w)
      then (case m (handles w ! h) of (r, f') \<Rightarrow> (r, w\<lparr>handles := (handles w)[h := f']\<rparr>))
      else (Inl ValueError, w))"

text \<open>\<^verbatim>\<open>h.read(size)\<close>: the method runs with the memory of the process.\<close>

definition read_at :: "nat \<Rightarrow> int option \<Rightarrow> bytes io" where
  "read_at h sz w = at h (read (memory w) sz) w"

subsection \<open>struct.unpack\<close>

text \<open>
  \<^verbatim>\<open>struct.unpack('I', b)\<close>: an unsigned int of four bytes in the byte order of the
  machine, little-endian on every platform autopkg runs on. A buffer that is not
  exactly four bytes long raises \<^verbatim>\<open>struct.error\<close>. The result is a tuple with one
  element.
\<close>

definition uint32_le :: "bytes \<Rightarrow> int" where
  "uint32_le b = uint (b ! 0) + 256 * uint (b ! 1) + 65536 * uint (b ! 2) + 16777216 * uint (b ! 3)"

definition struct_unpack_I :: "bytes \<Rightarrow> exn + int list" where
  "struct_unpack_I b = (if length b = 4 then Inr [uint32_le b] else Inl StructError)"

subsection \<open>Text encodings\<close>

text \<open>
  Well-formed UTF-8, on the values of the bytes. With \<open>sp\<close> (the error handler
  \<^verbatim>\<open>surrogatepass\<close>) the three-byte encodings of U+D800..U+DFFF are accepted too.
\<close>

definition cont :: "nat \<Rightarrow> bool" where
  "cont b = (128 \<le> b \<and> b \<le> 191)"

fun utf8_valid :: "bool \<Rightarrow> nat list \<Rightarrow> bool" where
  "utf8_valid sp [] = True"
| "utf8_valid sp (a # rest) =
     (if a < 128 then utf8_valid sp rest
      else if 194 \<le> a \<and> a \<le> 223 then
        (case rest of b # r \<Rightarrow> cont b \<and> utf8_valid sp r | _ \<Rightarrow> False)
      else if 224 \<le> a \<and> a \<le> 239 then
        (case rest of
           b # c # r \<Rightarrow>
             cont b \<and> cont c \<and> (a = 224 \<longrightarrow> 160 \<le> b) \<and> (a = 237 \<and> \<not> sp \<longrightarrow> b \<le> 159)
             \<and> utf8_valid sp r
         | _ \<Rightarrow> False)
      else if 240 \<le> a \<and> a \<le> 244 then
        (case rest of
           b # c # d # r \<Rightarrow>
             cont b \<and> cont c \<and> cont d \<and> (a = 240 \<longrightarrow> 144 \<le> b) \<and> (a = 244 \<longrightarrow> b \<le> 143)
             \<and> utf8_valid sp r
         | _ \<Rightarrow> False)
      else False)"

definition to_str :: "bytes \<Rightarrow> string" where
  "to_str b = map (\<lambda>x. char_of (unat x)) b"

text \<open>\<^verbatim>\<open>b.decode('utf-8')\<close> and \<^verbatim>\<open>b.decode('utf-8', 'surrogatepass')\<close>.\<close>

definition decode_utf8 :: "bool \<Rightarrow> bytes \<Rightarrow> exn + string" where
  "decode_utf8 sp b = (if utf8_valid sp (map unat b) then Inr (to_str b) else Inl UnicodeDecodeError)"

text \<open>The model of a one-character \<^verbatim>\<open>str\<close>: the generalised UTF-8 encoding of a code point.\<close>

definition encode_cp :: "nat \<Rightarrow> string" where
  "encode_cp cp =
     (if cp < 128 then [char_of cp]
      else if cp < 2048 then [char_of (192 + cp div 64), char_of (128 + cp mod 64)]
      else if cp < 65536 then
        [char_of (224 + cp div 4096), char_of (128 + cp div 64 mod 64), char_of (128 + cp mod 64)]
      else
        [char_of (240 + cp div 262144), char_of (128 + cp div 4096 mod 64),
         char_of (128 + cp div 64 mod 64), char_of (128 + cp mod 64)])"

definition high_surrogate :: "nat \<Rightarrow> bool" where
  "high_surrogate u = (55296 \<le> u \<and> u \<le> 56319)"

definition low_surrogate :: "nat \<Rightarrow> bool" where
  "low_surrogate u = (56320 \<le> u \<and> u \<le> 57343)"

definition join_surrogates :: "nat \<Rightarrow> nat \<Rightarrow> nat" where
  "join_surrogates hi lo = 65536 + (hi - 55296) * 1024 + (lo - 56320)"

text \<open>
  UTF-16 with \<^verbatim>\<open>surrogatepass\<close>, on the values of the bytes: \<open>be\<close> chooses the byte
  order; a surrogate pair is joined, a lone surrogate is kept, an odd byte at the end
  is an error.
\<close>

fun utf16_units :: "bool \<Rightarrow> nat list \<Rightarrow> nat list option" where
  "utf16_units be [] = Some []"
| "utf16_units be [a] = None"
| "utf16_units be (a # b # r) =
     map_option ((#) (if be then a * 256 + b else b * 256 + a)) (utf16_units be r)"

fun utf16_join :: "nat list \<Rightarrow> nat list" where
  "utf16_join (u # v # r) =
     (if high_surrogate u \<and> low_surrogate v then join_surrogates u v # utf16_join r
      else u # utf16_join (v # r))"
| "utf16_join us = us"

definition decode_utf16 :: "bool \<Rightarrow> nat list \<Rightarrow> exn + string" where
  "decode_utf16 be b =
     (case utf16_units be b of
        None \<Rightarrow> Inl UnicodeDecodeError
      | Some us \<Rightarrow> Inr (concat (map encode_cp (utf16_join us))))"

text \<open>UTF-32 with \<^verbatim>\<open>surrogatepass\<close>: four bytes a code point, none above U+10FFFF.\<close>

fun utf32_points :: "bool \<Rightarrow> nat list \<Rightarrow> nat list option" where
  "utf32_points be [] = Some []"
| "utf32_points be (a # b # c # d # r) =
     (let cp = (if be then ((a * 256 + b) * 256 + c) * 256 + d
                else ((d * 256 + c) * 256 + b) * 256 + a)
      in if cp \<le> 1114111 then map_option ((#) cp) (utf32_points be r) else None)"
| "utf32_points be _ = None"

definition decode_utf32 :: "bool \<Rightarrow> nat list \<Rightarrow> exn + string" where
  "decode_utf32 be b =
     (case utf32_points be b of
        None \<Rightarrow> Inl UnicodeDecodeError
      | Some cps \<Rightarrow> Inr (concat (map encode_cp cps)))"

text \<open>
  \<^verbatim>\<open>s.decode(json.detect_encoding(s), 'surrogatepass')\<close>, the first step of
  \<^verbatim>\<open>json.loads\<close> on \<^verbatim>\<open>bytes\<close>: a byte order mark or the place of the zero bytes among
  the first four chooses UTF-32, UTF-16 or UTF-8; the codecs \<^verbatim>\<open>utf-32\<close>, \<^verbatim>\<open>utf-16\<close> and
  \<^verbatim>\<open>utf-8-sig\<close> drop the mark.
\<close>

definition decode_detected :: "bytes \<Rightarrow> exn + string" where
  "decode_detected s =
     (let b = map unat s in
      if take 4 b = [0, 0, 254, 255] then decode_utf32 True (drop 4 b)
      else if take 4 b = [255, 254, 0, 0] then decode_utf32 False (drop 4 b)
      else if take 2 b = [254, 255] then decode_utf16 True (drop 2 b)
      else if take 2 b = [255, 254] then decode_utf16 False (drop 2 b)
      else if take 3 b = [239, 187, 191] then decode_utf8 True (drop 3 s)
      else if 4 \<le> length b \<and> b ! 0 = 0 then
        (if b ! 1 \<noteq> 0 then decode_utf16 True b else decode_utf32 True b)
      else if 4 \<le> length b \<and> b ! 1 = 0 then
        (if b ! 2 \<noteq> 0 \<or> b ! 3 \<noteq> 0 then decode_utf16 False b else decode_utf32 False b)
      else if length b = 2 \<and> b ! 0 = 0 then decode_utf16 True b
      else if length b = 2 \<and> b ! 1 = 0 then decode_utf16 False b
      else decode_utf8 True s)"

subsection \<open>json.loads\<close>

text \<open>
  The decoder of the standard library with its default settings, as a tokenizer
  followed by a parser. Every syntax error is \<^verbatim>\<open>JSONDecodeError\<close>. The limit of the
  interpreter on the depth of nesting and its limit on the digits of an integer
  literal are not modelled.
\<close>

datatype token =
    TLBrace | TRBrace | TLBracket | TRBracket | TComma | TColon
  | TString string
  | TAtom json

definition is_ws :: "char \<Rightarrow> bool" where
  "is_ws c = (c = CHR '' '' \<or> c = CHR 0x09 \<or> c = CHR 0x0A \<or> c = CHR 0x0D)"

definition is_digit :: "char \<Rightarrow> bool" where
  "is_digit c = (48 \<le> (of_char c :: nat) \<and> (of_char c :: nat) \<le> 57)"

definition digit_val :: "char \<Rightarrow> nat" where
  "digit_val c = of_char c - 48"

definition hex_digit :: "char \<Rightarrow> nat option" where
  "hex_digit c =
     (if is_digit c then Some (digit_val c)
      else if 97 \<le> (of_char c :: nat) \<and> (of_char c :: nat) \<le> 102 then Some (of_char c - 87)
      else if 65 \<le> (of_char c :: nat) \<and> (of_char c :: nat) \<le> 70 then Some (of_char c - 55)
      else None)"

definition hex4 :: "string \<Rightarrow> (nat \<times> string) option" where
  "hex4 s =
     (case s of
        a # b # c # d # r \<Rightarrow>
          (case (hex_digit a, hex_digit b, hex_digit c, hex_digit d) of
             (Some x, Some y, Some z, Some u) \<Rightarrow> Some (((x * 16 + y) * 16 + z) * 16 + u, r)
           | _ \<Rightarrow> None)
      | _ \<Rightarrow> None)"

text \<open>The character an escape letter stands for.\<close>

definition simple_escape :: "char \<Rightarrow> char option" where
  "simple_escape e =
     (if e = CHR 0x22 then Some (CHR 0x22)
      else if e = CHR 0x5C then Some (CHR 0x5C)
      else if e = CHR ''/'' then Some (CHR ''/'')
      else if e = CHR ''b'' then Some (CHR 0x08)
      else if e = CHR ''f'' then Some (CHR 0x0C)
      else if e = CHR ''n'' then Some (CHR 0x0A)
      else if e = CHR ''r'' then Some (CHR 0x0D)
      else if e = CHR ''t'' then Some (CHR 0x09)
      else None)"

text \<open>
  \<open>\uXXXX\<close>, the text after \<open>\u\<close> given: the string it stands for and how many
  characters of the text it takes. A high surrogate followed by the escape of a low
  one is the code point of the pair.
\<close>

definition unicode_escape :: "string \<Rightarrow> (string \<times> nat) option" where
  "unicode_escape s =
     (case hex4 s of
        None \<Rightarrow> None
      | Some (u, r) \<Rightarrow>
          (case (if high_surrogate u \<and> take 2 r = [CHR 0x5C, CHR ''u''] then hex4 (drop 2 r) else None) of
             Some (v, r') \<Rightarrow>
               if low_surrogate v then Some (encode_cp (join_surrogates u v), 10)
               else Some (encode_cp u, 4)
           | None \<Rightarrow> Some (encode_cp u, 4)))"

text \<open>
  The body of a string literal, the text after the opening quote given: the string,
  and how many characters the body and the closing quote take. A control character
  is refused.
\<close>

definition more :: "string \<Rightarrow> nat \<Rightarrow> (string \<times> nat) option \<Rightarrow> (string \<times> nat) option" where
  "more x k res = map_option (\<lambda>(y, n). (x @ y, k + n)) res"

fun scan_string :: "string \<Rightarrow> (string \<times> nat) option" where
  "scan_string [] = None"
| "scan_string (c # cs) =
     (if c = CHR 0x22 then Some ([], 1)
      else if c = CHR 0x5C then
        (case cs of
           [] \<Rightarrow> None
         | e # r \<Rightarrow>
             if e = CHR ''u'' then
               (case unicode_escape r of
                  None \<Rightarrow> None
                | Some (x, k) \<Rightarrow> more x (2 + k) (scan_string (drop k r)))
             else
               (case simple_escape e of
                  None \<Rightarrow> None
                | Some x \<Rightarrow> more [x] 2 (scan_string r)))
      else if of_char c < (32 :: nat) then None
      else more [c] 1 (scan_string cs))"

text \<open>The decimal value of a string of digits.\<close>

definition digits_val :: "string \<Rightarrow> nat" where
  "digits_val ds = foldl (\<lambda>acc d. acc * 10 + digit_val d) 0 ds"

text \<open>
  A number literal at the head of the text, as the decoder's pattern
  \<^verbatim>\<open>(-?(?:0|[1-9]\d*))(\.\d+)?([eE][-+]?\d+)?\<close> matches it: the length of the integer
  part, of the fraction and of the exponent (0 when the part is absent).
\<close>

definition int_part_len :: "string \<Rightarrow> nat" where
  "int_part_len s =
     (let m = (if take 1 s = ''-'' then 1 else 0); t = drop m s in
      case t of
        [] \<Rightarrow> 0
      | d # r \<Rightarrow>
          if d = CHR ''0'' then m + 1
          else if is_digit d then m + 1 + length (takeWhile is_digit r)
          else 0)"

definition frac_len :: "string \<Rightarrow> nat" where
  "frac_len t =
     (if take 1 t = ''.'' \<and> takeWhile is_digit (drop 1 t) \<noteq> []
      then 1 + length (takeWhile is_digit (drop 1 t)) else 0)"

definition exp_len :: "string \<Rightarrow> nat" where
  "exp_len t =
     (if take 1 t = ''e'' \<or> take 1 t = ''E'' then
        (let k = (if take 1 (drop 1 t) = ''-'' \<or> take 1 (drop 1 t) = ''+'' then 2 else 1)
         in if takeWhile is_digit (drop k t) \<noteq> [] then k + length (takeWhile is_digit (drop k t))
            else 0)
      else 0)"

definition scan_number :: "string \<Rightarrow> (json \<times> nat) option" where
  "scan_number s =
     (let i = int_part_len s in
      if i = 0 then None
      else
        (let f = frac_len (drop i s); e = exp_len (drop (i + f) s) in
         if f = 0 \<and> e = 0 then
           Some (JInt (if take 1 s = ''-'' then - int (digits_val (drop 1 (take i s)))
                       else int (digits_val (take i s))),
                 i)
         else Some (JFloat (take (i + f + e) s), i + f + e)))"

text \<open>A literal word at the head of the text.\<close>

definition literal :: "string \<Rightarrow> json \<Rightarrow> string \<Rightarrow> (token \<times> nat) option" where
  "literal word v s = (if take (length word) s = word then Some (TAtom v, length word) else None)"

text \<open>
  The token at the head of a text that does not start with white space, and how many
  characters it takes.
\<close>

definition next_token :: "string \<Rightarrow> (token \<times> nat) option" where
  "next_token s =
     (case s of
        [] \<Rightarrow> None
      | c # cs \<Rightarrow>
          if c = CHR 0x22 then map_option (\<lambda>(x, n). (TString x, 1 + n)) (scan_string cs)
          else if c = CHR ''{'' then Some (TLBrace, 1)
          else if c = CHR ''}'' then Some (TRBrace, 1)
          else if c = CHR ''['' then Some (TLBracket, 1)
          else if c = CHR '']'' then Some (TRBracket, 1)
          else if c = CHR '','' then Some (TComma, 1)
          else if c = CHR '':'' then Some (TColon, 1)
          else if c = CHR ''n'' then literal ''null'' JNull s
          else if c = CHR ''t'' then literal ''true'' (JBool True) s
          else if c = CHR ''f'' then literal ''false'' (JBool False) s
          else if c = CHR ''N'' then literal ''NaN'' (JFloat ''NaN'') s
          else if c = CHR ''I'' then literal ''Infinity'' (JFloat ''Infinity'') s
          else if take 9 s = ''-Infinity'' then literal ''-Infinity'' (JFloat ''-Infinity'') s
          else map_option (apfst TAtom) (scan_number s))"

text \<open>
  The tokens of a text. A token takes at least one character; the recursion goes on
  after the first character and the \<open>n - 1\<close> others of the token.
\<close>

fun tokenize :: "string \<Rightarrow> token list option" where
  "tokenize [] = Some []"
| "tokenize (c # cs) =
     (if is_ws c then tokenize cs
      else
        (case next_token (c # cs) of
           None \<Rightarrow> None
         | Some (tok, n) \<Rightarrow> map_option ((#) tok) (tokenize (drop (n - 1) cs))))"

text \<open>
  The parser reads the tokens one by one. It keeps the containers that are open,
  innermost first, and what may come next.
\<close>

datatype frame =
    FArray "json list"
  | FObject "(string \<times> json) list" "string option"

datatype expect =
    XValue | XValueOrEnd | XKeyOrEnd | XKey | XColon | XCommaOrEnd
  | XDone json
  | XError

text \<open>
  A value is complete: it is the result, the next element of the array around it, or
  the value of the pending key of the object around it. A key met again keeps its
  place and takes the new value, as \<^verbatim>\<open>dict\<close> assignment does.
\<close>

fun complete :: "json \<Rightarrow> frame list \<Rightarrow> expect \<times> frame list" where
  "complete v [] = (XDone v, [])"
| "complete v (FArray vs # st) = (XCommaOrEnd, FArray (vs @ [v]) # st)"
| "complete v (FObject kvs (Some k) # st) = (XCommaOrEnd, FObject (AList.update k v kvs) None # st)"
| "complete v (FObject kvs None # st) = (XError, st)"

definition start_value :: "token \<Rightarrow> frame list \<Rightarrow> expect \<times> frame list" where
  "start_value t st =
     (case t of
        TLBrace \<Rightarrow> (XKeyOrEnd, FObject [] None # st)
      | TLBracket \<Rightarrow> (XValueOrEnd, FArray [] # st)
      | TString s \<Rightarrow> complete (JString s) st
      | TAtom v \<Rightarrow> complete v st
      | _ \<Rightarrow> (XError, st))"

definition take_key :: "token \<Rightarrow> frame list \<Rightarrow> expect \<times> frame list" where
  "take_key t st =
     (case (t, st) of
        (TString k, FObject kvs _ # st') \<Rightarrow> (XColon, FObject kvs (Some k) # st')
      | _ \<Rightarrow> (XError, st))"

definition close_array :: "frame list \<Rightarrow> expect \<times> frame list" where
  "close_array st = (case st of FArray vs # st' \<Rightarrow> complete (JArray vs) st' | _ \<Rightarrow> (XError, st))"

definition close_object :: "frame list \<Rightarrow> expect \<times> frame list" where
  "close_object st = (case st of FObject kvs _ # st' \<Rightarrow> complete (JObject kvs) st' | _ \<Rightarrow> (XError, st))"

definition step :: "expect \<times> frame list \<Rightarrow> token \<Rightarrow> expect \<times> frame list" where
  "step cfg t =
     (case cfg of (x, st) \<Rightarrow>
        (case x of
           XValue \<Rightarrow> start_value t st
         | XValueOrEnd \<Rightarrow> if t = TRBracket then close_array st else start_value t st
         | XKeyOrEnd \<Rightarrow> if t = TRBrace then close_object st else take_key t st
         | XKey \<Rightarrow> take_key t st
         | XColon \<Rightarrow> if t = TColon then (XValue, st) else (XError, st)
         | XCommaOrEnd \<Rightarrow>
             (case (t, st) of
                (TComma, FArray _ # _) \<Rightarrow> (XValue, st)
              | (TComma, FObject _ _ # _) \<Rightarrow> (XKey, st)
              | (TRBracket, FArray _ # _) \<Rightarrow> close_array st
              | (TRBrace, FObject _ _ # _) \<Rightarrow> close_object st
              | _ \<Rightarrow> (XError, st))
         | XDone v \<Rightarrow> (XError, st)
         | XError \<Rightarrow> (XError, st)))"

definition parse :: "token list \<Rightarrow> json option" where
  "parse ts = (case foldl step (XValue, []) ts of (XDone v, _) \<Rightarrow> Some v | _ \<Rightarrow> None)"

text \<open>The decoder on a \<^verbatim>\<open>str\<close>.\<close>

definition json_decode :: "string \<Rightarrow> exn + json" where
  "json_decode s =
     (case tokenize s of
        None \<Rightarrow> Inl JSONDecodeError
      | Some ts \<Rightarrow> (case parse ts of None \<Rightarrow> Inl JSONDecodeError | Some v \<Rightarrow> Inr v))"

text \<open>
  \<^verbatim>\<open>json.loads(s)\<close> for a \<^verbatim>\<open>str\<close>, which must not start with a byte order mark, and for
  \<^verbatim>\<open>bytes\<close>, which are decoded first.
\<close>

definition json_loads_str :: "string \<Rightarrow> exn + json" where
  "json_loads_str s =
     (if take 3 s = [CHR 0xEF, CHR 0xBB, CHR 0xBF] then Inl JSONDecodeError else json_decode s)"

definition json_loads_bytes :: "bytes \<Rightarrow> exn + json" where
  "json_loads_bytes b = (case decode_detected b of Inl e \<Rightarrow> Inl e | Inr s \<Rightarrow> json_decode s)"

subsection \<open>Operations on Python values\<close>

text \<open>\<^verbatim>\<open>obj[key]\<close> with a \<^verbatim>\<open>str\<close> key: only a \<^verbatim>\<open>dict\<close> can be indexed by a string.\<close>

definition subscript :: "json \<Rightarrow> string \<Rightarrow> exn + json" where
  "subscript obj key =
     (case obj of
        JObject kvs \<Rightarrow> (case map_of kvs key of None \<Rightarrow> Inl (KeyError key) | Some v \<Rightarrow> Inr v)
      | _ \<Rightarrow> Inl TypeError)"

text \<open>\<^verbatim>\<open>obj.get(key, default)\<close>: only a \<^verbatim>\<open>dict\<close> has the method.\<close>

definition dict_get :: "json \<Rightarrow> string \<Rightarrow> json \<Rightarrow> exn + json" where
  "dict_get obj key dflt =
     (case obj of
        JObject kvs \<Rightarrow> Inr (case map_of kvs key of None \<Rightarrow> dflt | Some v \<Rightarrow> v)
      | _ \<Rightarrow> Inl AttributeError)"

text \<open>
  \<^verbatim>\<open>int(s)\<close> for a \<^verbatim>\<open>str\<close>: white space around, a sign, then decimal digits, where single
  underscores may stand between digits. Only the digits and the white space of ASCII
  are modelled, and no limit on the number of digits.
\<close>

definition is_space :: "char \<Rightarrow> bool" where
  "is_space c = (c = CHR '' '' \<or> (9 \<le> (of_char c :: nat) \<and> (of_char c :: nat) \<le> 13))"

definition strip :: "string \<Rightarrow> string" where
  "strip s = rev (dropWhile is_space (rev (dropWhile is_space s)))"

fun digits_ok :: "string \<Rightarrow> bool" where
  "digits_ok [] = False"
| "digits_ok [d] = is_digit d"
| "digits_ok (d # u # r) =
     (is_digit d \<and> (if u = CHR ''_'' then digits_ok r else digits_ok (u # r)))"

definition int_of_str :: "string \<Rightarrow> exn + int" where
  "int_of_str s =
     (let t = strip s;
          neg = (take 1 t = ''-'');
          ds = (if take 1 t = ''-'' \<or> take 1 t = ''+'' then drop 1 t else t)
      in if digits_ok ds
         then Inr ((if neg then - 1 else 1) * int (digits_val (filter is_digit ds)))
         else Inl ValueError)"

text \<open>
  \<^verbatim>\<open>int(x)\<close> for a \<^verbatim>\<open>float\<close> read from the literal \<open>lit\<close>. The float is the double
  nearest to the decimal (ties to even): with \<open>2 ^ b\<close> the power of two at or below
  the decimal \<open>num / den\<close>, the double is \<open>m * 2 ^ k\<close> for \<open>k = b - 52\<close> and \<open>m\<close> the
  quotient rounded. \<^verbatim>\<open>int\<close> cuts the fraction off; it refuses infinities and NaN.
\<close>

fun bit_length :: "nat \<Rightarrow> nat" where
  "bit_length n = (if n = 0 then 0 else Suc (bit_length (n div 2)))"

definition round_half_even :: "nat \<Rightarrow> nat \<Rightarrow> nat" where
  "round_half_even n d =
     (let q = n div d; r = n mod d
      in if d < 2 * r \<or> (2 * r = d \<and> odd q) then q + 1 else q)"

definition double_trunc :: "nat \<Rightarrow> nat \<Rightarrow> exn + int" where
  "double_trunc num den =
     (if num = 0 then Inr 0
      else
        (let bn = int (bit_length num); bd = int (bit_length den);
             b = (if bd \<le> bn
                  then (if den * 2 ^ nat (bn - bd) \<le> num then bn - bd else bn - bd - 1)
                  else (if den \<le> num * 2 ^ nat (bd - bn) then bn - bd else bn - bd - 1));
             k = max (b - 52) (- 1074);
             m = (if 0 \<le> k then round_half_even num (den * 2 ^ nat k)
                  else round_half_even (num * 2 ^ nat (- k)) den)
         in if 0 \<le> k then
              (if 2 ^ 1024 \<le> m * 2 ^ nat k then Inl OverflowError else Inr (int (m * 2 ^ nat k)))
            else Inr (int (m div 2 ^ nat (- k)))))"

definition int_of_float :: "string \<Rightarrow> exn + int" where
  "int_of_float lit =
     (if lit = ''NaN'' then Inl ValueError
      else if lit = ''Infinity'' \<or> lit = ''-Infinity'' then Inl OverflowError
      else
        (let neg = (take 1 lit = ''-'');
             i = int_part_len lit;
             f = frac_len (drop i lit);
             e = exp_len (drop (i + f) lit);
             ip = filter is_digit (take i lit);
             fp = drop 1 (take f (drop i lit));
             ex = drop (i + f + 1) lit;
             e10 = (if e = 0 then 0
                    else if take 1 ex = ''-'' then - int (digits_val (drop 1 ex))
                    else int (digits_val (filter is_digit ex))) - int (length fp);
             m = digits_val (ip @ fp)
         in map_sum id (\<lambda>v. if neg then - v else v)
              (if 0 \<le> e10 then double_trunc (m * 10 ^ nat e10) 1
               else double_trunc m (10 ^ nat (- e10)))))"

text \<open>
  \<^verbatim>\<open>int(x)\<close>: a string is parsed, a number is cut to an integer, \<^verbatim>\<open>None\<close> and the
  containers are refused with \<^verbatim>\<open>TypeError\<close>.
\<close>

definition py_int :: "json \<Rightarrow> exn + int" where
  "py_int x =
     (case x of
        JString s \<Rightarrow> int_of_str s
      | JInt n \<Rightarrow> Inr n
      | JBool b \<Rightarrow> Inr (if b then 1 else 0)
      | JFloat lit \<Rightarrow> int_of_float lit
      | _ \<Rightarrow> Inl TypeError)"

text \<open>
  The argument of \<^verbatim>\<open>read\<close>: an integer (\<^verbatim>\<open>bool\<close> is one) or \<^verbatim>\<open>None\<close>; anything else is
  a \<^verbatim>\<open>TypeError\<close>.
\<close>

definition read_size :: "json \<Rightarrow> exn + int option" where
  "read_size x =
     (case x of
        JNull \<Rightarrow> Inr None
      | JInt n \<Rightarrow> Inr (Some n)
      | JBool b \<Rightarrow> Inr (Some (if b then 1 else 0))
      | _ \<Rightarrow> Inl TypeError)"

text \<open>
  Reading a local name: a name that no assignment has bound raises
  \<^verbatim>\<open>UnboundLocalError\<close>.
\<close>

definition local_name :: "string \<Rightarrow> 'a option \<Rightarrow> 'a io" where
  "local_name name v = (case v of None \<Rightarrow> raise (NameError name) | Some x \<Rightarrow> ret x)"

subsection \<open>The processor\<close>

text \<open>
  \<^verbatim>\<open>self.env\<close>, with the input variables the processor declares (autopkg checks the
  required ones and fills in the defaults before \<^verbatim>\<open>main\<close> runs) and its output
  variable.
\<close>

record env =
  input_asar_path :: string
  package_json :: string
  version_key :: string
  skip_single_root_dir :: bool
  version :: "json option"

definition UNKNOWN_VERSION :: string where
  "UNKNOWN_VERSION = ''UNKNOWN_VERSION''"

text \<open>
  \<^verbatim>\<open>_asar_opener\<close> (lines 92 to 127). After the \<^verbatim>\<open>try\<close> statement the name \<^verbatim>\<open>error\<close> is
  unbound: the \<^verbatim>\<open>except\<close> clause is its only binding, and that clause always raises.
  The f-string of the guard on the header size (lines 111 to 114, \<open>header_size_guard\<close>)
  reads it.
\<close>

definition header_size_guard :: "string \<Rightarrow> int list \<Rightarrow> unit io" where
  "header_size_guard path header_size =
     (if length header_size \<le> 0
      then bnd (local_name ''error'' (None :: exn option)) (\<lambda>error.
             raise (ProcessorError (''Can't determine header size of '' @ path @ '': '')
                      (Some error)))
      else ret ())"

definition asar_opener :: "string \<Rightarrow> (nat \<times> json \<times> int) io" where
  "asar_opener path =
     bnd (try_except (open_rb path)
            (\<lambda>error. raise (ProcessorError (''Can't read '' @ path @ '': '') (Some error))))
       (\<lambda>asar_file.
     bnd (at asar_file (seek 4)) (\<lambda>_.
     bnd (read_at asar_file (Some 4)) (\<lambda>b.
     bnd (lift (struct_unpack_I b)) (\<lambda>header_size.
     bnd (header_size_guard path header_size) (\<lambda>_.
     let header_size = hd header_size - 8 in
     bnd (at asar_file tell) (\<lambda>t.
     bnd (at asar_file (seek (t + 8))) (\<lambda>_.
     bnd (read_at asar_file (Some header_size)) (\<lambda>raw.
     bnd (lift (decode_utf8 False raw)) (\<lambda>header.
     bnd (lift (json_loads_str header)) (\<lambda>json_header.
     bnd (at asar_file tell) (\<lambda>base_offset.
     ret (asar_file, json_header, base_offset))))))))))))"

text \<open>\<^verbatim>\<open>_extract_package_json\<close> (lines 129 to 147).\<close>

definition extract_package_json :: "env \<Rightarrow> nat \<Rightarrow> json \<Rightarrow> int \<Rightarrow> json io" where
  "extract_package_json e asar_file json_header base_offset =
     bnd (try_except
            (bnd (lift (subscript json_header ''files'')) (\<lambda>fs.
               lift (subscript fs (package_json e))))
            (\<lambda>error. raise (ProcessorError ''Can't find package JSON: '' (Some error))))
       (\<lambda>entry.
     bnd (lift (dict_get entry ''offset'' JNull)) (\<lambda>offset.
     bnd (lift (py_int offset)) (\<lambda>offset.
     let absolute_offset = offset + base_offset in
     bnd (at asar_file (seek absolute_offset)) (\<lambda>_.
     bnd (lift (dict_get entry ''size'' JNull)) (\<lambda>sz.
     bnd (lift (read_size sz)) (\<lambda>sz.
     bnd (read_at asar_file sz) (\<lambda>data.
     lift (json_loads_bytes data))))))))"

text \<open>
  \<^verbatim>\<open>get_asar_info\<close> (lines 149 to 168). The call of \<^verbatim>\<open>_asar_opener\<close> stands before the
  \<^verbatim>\<open>try\<close> statement; \<^verbatim>\<open>except Exception\<close> catches a \<^verbatim>\<open>ProcessorError\<close> too.
\<close>

definition get_asar_info :: "env \<Rightarrow> string \<Rightarrow> json io" where
  "get_asar_info e asar_path =
     bnd (asar_opener asar_path) (\<lambda>(asar_file, json_header, base_offset).
       try_finally
         (try_except (extract_package_json e asar_file json_header base_offset)
            (\<lambda>error. raise (ProcessorError ''Can't extract package info: '' (Some error))))
         (at asar_file close))"

text \<open>
  \<^verbatim>\<open>main\<close> (lines 170 to 193). \<^verbatim>\<open>_read_auto_detect\<close> belongs to autopkglib's
  \<^verbatim>\<open>Versioner\<close> and is a parameter here: it is given the path, the flag and the
  reader, and returns what the reader returned or \<^verbatim>\<open>None\<close> (\<open>JNull\<close>). A
  \<^verbatim>\<open>ProcessorError\<close> is passed on, any other exception is wrapped in one. The
  message written with \<^verbatim>\<open>self.output\<close> is left out.
\<close>

definition main :: "(string \<Rightarrow> bool \<Rightarrow> (string \<Rightarrow> json io) \<Rightarrow> json io) \<Rightarrow> env \<Rightarrow> env io" where
  "main read_auto_detect e =
     try_except
       (bnd (read_auto_detect (input_asar_path e) (skip_single_root_dir e) (get_asar_info e))
          (\<lambda>asar_dict.
        if asar_dict = JNull
        then raise (ProcessorError (''File '' @ [CHR 0x27] @ input_asar_path e @ [CHR 0x27] @ '' was not found.'') None)
        else
          bnd (lift (dict_get asar_dict (version_key e) (JString UNKNOWN_VERSION))) (\<lambda>v.
            ret (e\<lparr>version := Some v\<rparr>))))
       (\<lambda>ex. case ex of
          ProcessorError msg cause \<Rightarrow> raise ex
        | _ \<Rightarrow> raise (ProcessorError [] (Some ex)))"

subsection \<open>Notions for the properties\<close>

text \<open>
  The bytes that \<^verbatim>\<open>_asar_opener\<close> reads as the header of an archive \<open>bs\<close> of at least
  eight bytes: with \<open>v\<close> the value of the size field, \<open>v - 8\<close> bytes from byte 16 on,
  and all the bytes from byte 16 on when \<open>v = 7\<close> (the length is then \<open>-1\<close>).
\<close>

definition header_bytes :: "bytes \<Rightarrow> bytes" where
  "header_bytes bs =
     (let v = uint32_le (take 4 (drop 4 bs))
      in if v = 7 then drop 16 bs else take (nat (v - 8)) (drop 16 bs))"

text \<open>What \<^verbatim>\<open>get_asar_info\<close> makes of the outcome of \<^verbatim>\<open>_extract_package_json\<close>.\<close>

definition wrap_extract :: "exn + json \<Rightarrow> exn + json" where
  "wrap_extract r =
     (case r of
        Inl e \<Rightarrow> Inl (ProcessorError ''Can't extract package info: '' (Some e))
      | Inr v \<Rightarrow> Inr v)"

text \<open>
  A computation that is given a reference is confined to the newest file object when,
  run on the reference to that object in a world of memory \<open>mem\<close>, it changes nothing
  else in the world, and its outcome and the object it leaves depend on nothing else.
\<close>

definition confined :: "nat \<Rightarrow> (nat \<Rightarrow> 'a io) \<Rightarrow> bool" where
  "confined mem m =
     (\<forall>f. \<exists>r f'. \<forall>w. memory w = mem \<longrightarrow>
        m (length (handles w)) (new_handle w f) = (r, new_handle w f'))"

text \<open>
  The least number of tokens of a JSON text with a given value: one for an atom or a
  string, and for a container its two brackets, its elements (with the key and the
  colon of each in an object) and the commas between them. A text is at least as
  long as the number of its tokens, which bounds the length of a header from below.
\<close>

fun tokens :: "json \<Rightarrow> nat" where
  "tokens (JArray vs) = 2 + sum_list (map tokens vs) + (length vs - 1)"
| "tokens (JObject kvs) = 2 + sum_list (map (\<lambda>kv. 2 + tokens (snd kv)) kvs) + (length kvs - 1)"
| "tokens v = 1"

fun weight :: "token \<Rightarrow> nat" where
  "weight (TAtom v) = tokens v"
| "weight t = 1"

text \<open>
  The tokens that the parser has read for a container that is open: \<open>pending\<close> when
  the parser waits for the next value of the container (a comma follows each element
  read so far, and in an object the key and the colon have been read), \<open>settled\<close>
  when the last value has just been completed. \<open>cost\<close> bounds from below the number
  of tokens read in a configuration of the parser.
\<close>

fun pending :: "frame \<Rightarrow> nat" where
  "pending (FArray vs) = 1 + sum_list (map tokens vs) + length vs"
| "pending (FObject kvs k) = 3 + sum_list (map (\<lambda>kv. 2 + tokens (snd kv)) kvs) + length kvs"

fun settled :: "frame \<Rightarrow> nat" where
  "settled (FArray vs) = 1 + sum_list (map tokens vs) + (length vs - 1)"
| "settled (FObject kvs k) = 1 + sum_list (map (\<lambda>kv. 2 + tokens (snd kv)) kvs) + (length kvs - 1)"

fun cost :: "expect \<times> frame list \<Rightarrow> nat" where
  "cost (XDone v, st) = tokens v"
| "cost (XError, st) = 0"
| "cost (XCommaOrEnd, []) = 0"
| "cost (XCommaOrEnd, f # st) = settled f + sum_list (map pending st)"
| "cost (XColon, st) = sum_list (map pending st) - 1"
| "cost (XKey, st) = sum_list (map pending st) - 2"
| "cost (XKeyOrEnd, st) = sum_list (map pending st) - 2"
| "cost (XValue, st) = sum_list (map pending st)"
| "cost (XValueOrEnd, st) = sum_list (map pending st)"

subsection \<open>Example archives\<close>

text \<open>\<^verbatim>\<open>s.encode()\<close> and \<^verbatim>\<open>struct.pack('I', v)\<close>, to write archives down.\<close>

definition encode :: "string \<Rightarrow> bytes" where
  "encode s = map (\<lambda>c. of_nat (of_char c)) s"

definition pack_I :: "nat \<Rightarrow> bytes" where
  "pack_I v = [of_nat v, of_nat (v div 256), of_nat (v div 65536), of_nat (v div 16777216)]"

text \<open>
  An archive: four bytes that are not read, the size field, eight bytes of padding,
  the header and the data.
\<close>

definition archive :: "nat \<Rightarrow> string \<Rightarrow> string \<Rightarrow> bytes" where
  "archive v header data = [0, 0, 0, 0] @ pack_I v @ replicate 8 0 @ encode header @ encode data"

text \<open>
  A world whose only file is \<^verbatim>\<open>app.asar\<close> and whose process can allocate 1 GiB, and an
  environment of the processor.
\<close>

definition world_of :: "bytes \<Rightarrow> world" where
  "world_of bs =
     \<lparr>files = (\<lambda>p. if p = ''app.asar'' then Some bs else None), handles = [],
      memory = 2 ^ 30\<rparr>"

definition example_env :: env where
  "example_env = \<lparr>input_asar_path = ''app.asar'', package_json = ''package.json'',
     version_key = ''version'', skip_single_root_dir = False, version = None\<rparr>"

definition empty_world :: world where
  "empty_world = \<lparr>files = (\<lambda>p. None), handles = [], memory = 2 ^ 30\<rparr>"

text \<open>
  A well-formed archive: the header is 51 bytes long, the entry \<^verbatim>\<open>package.json\<close> is
  17 bytes long and starts 3 bytes into the data.
\<close>

definition good_header_text :: string where
  "good_header_text = ''{\"files\":{\"package.json\":{\"size\":17,\"offset\":\"3\"}}}''"

definition good_header :: json where
  "good_header =
     JObject [(''files'', JObject [(''package.json'',
       JObject [(''size'', JInt 17), (''offset'', JString ''3'')])])]"

definition good_archive :: bytes where
  "good_archive = archive 59 good_header_text ''xyz{\"version\":\"1.2\"}''"

text \<open>An archive that ends inside the size field.\<close>

definition short_archive :: bytes where
  "short_archive = [0, 0, 0, 0, 33]"

text \<open>An archive whose header is not a JSON text.\<close>

definition bad_header_archive :: bytes where
  "bad_header_archive = archive 10 ''{x'' ''''"

text \<open>Archives whose size field is below 8.\<close>

definition read_all_archive :: bytes where
  "read_all_archive = archive 7 ''{\"files\":{}}'' ''''"

definition negative_archive :: bytes where
  "negative_archive = archive 3 '''' ''''"

text \<open>An archive whose header has no entry.\<close>

definition no_entry_archive :: bytes where
  "no_entry_archive = archive 20 ''{\"files\":{}}'' ''''"

text \<open>
  An archive whose entry \<^verbatim>\<open>package.json\<close> is declared two bytes long, cut one byte
  into the data.
\<close>

definition short_entry_header_text :: string where
  "short_entry_header_text = ''{\"files\":{\"package.json\":{\"size\":2,\"offset\":\"0\"}}}''"

definition short_entry_header :: json where
  "short_entry_header =
     JObject [(''files'', JObject [(''package.json'',
       JObject [(''size'', JInt 2), (''offset'', JString ''0'')])])]"

definition truncated_archive :: bytes where
  "truncated_archive = archive 58 short_entry_header_text ''1''"

text \<open>An archive whose entry \<^verbatim>\<open>package.json\<close> has no version.\<close>

definition no_version_header_text :: string where
  "no_version_header_text = ''{\"files\":{\"package.json\":{\"size\":12,\"offset\":\"0\"}}}''"

definition no_version_header :: json where
  "no_version_header =
     JObject [(''files'', JObject [(''package.json'',
       JObject [(''size'', JInt 12), (''offset'', JString ''0'')])])]"

definition no_version_archive :: bytes where
  "no_version_archive = archive 59 no_version_header_text ''{\"name\":\"x\"}''"

text \<open>A header with \<^verbatim>\<open>package.json\<close> inside the directory \<^verbatim>\<open>dir\<close> only.\<close>

definition nested_header :: json where
  "nested_header =
     JObject [(''files'', JObject [(''dir'', JObject [(''files'', JObject [(''package.json'',
       JObject [(''size'', JInt 2), (''offset'', JString ''0'')])])])])]"

text \<open>A header with two entries at the top level.\<close>

definition two_entry_header :: json where
  "two_entry_header =
     JObject [(''files'', JObject
       [(''README'', JObject [(''size'', JInt 5), (''offset'', JString ''0'')]),
        (''package.json'', JObject [(''size'', JInt 2), (''offset'', JString ''5'')])])]"

text \<open>\<^verbatim>\<open>_read_auto_detect\<close> on the path of a plain file: the reader is called on it.\<close>

definition read_plain :: "string \<Rightarrow> bool \<Rightarrow> (string \<Rightarrow> json io) \<Rightarrow> json io" where
  "read_plain path skip reader = reader path"

section \<open>Properties\<close>

subsection \<open>Running a method on the newest file object\<close>

lemma files_new_handle [simp]: "files (new_handle w f) = files w"
  by (simp add: new_handle_def)

lemma memory_new_handle [simp]: "memory (new_handle w f) = memory w"
  by (simp add: new_handle_def)

lemma handles_new_handle [simp]: "handles (new_handle w f) = handles w @ [f]"
  by (simp add: new_handle_def)

lemma at_new_handle [simp]:
  "at (length (handles w)) m (new_handle w f) = (fst (m f), new_handle w (snd (m f)))"
  by (simp add: at_def new_handle_def split: prod.split)

lemma read_at_new_handle [simp]:
  "read_at (length (handles w)) sz (new_handle w f)
   = (fst (read (memory w) sz f), new_handle w (snd (read (memory w) sz f)))"
  by (simp add: read_at_def)

lemma bnd_pair [simp]:
  "bnd m k w = (case fst (m w) of Inl e \<Rightarrow> (Inl e, snd (m w)) | Inr x \<Rightarrow> k x (snd (m w)))"
  by (simp add: bnd_def split: prod.split sum.split)

subsection \<open>The exceptions of the decoders\<close>

lemma json_loads_str_error: "json_loads_str s = Inl e \<Longrightarrow> e = JSONDecodeError"
  by (auto simp: json_loads_str_def json_decode_def split: if_splits option.splits)

subsection \<open>The outcomes of \<^verbatim>\<open>_asar_opener\<close>\<close>

lemma uint32_le_bounds: "0 \<le> uint32_le b \<and> uint32_le b < 2 ^ 32"
proof -
  have "uint (x :: byte) < 256" for x
    using uint_lt2p [of x] by simp
  from this [of "b ! 0"] this [of "b ! 1"] this [of "b ! 2"] this [of "b ! 3"]
  show ?thesis
    by (simp add: uint32_le_def)
qed

lemma opener_missing:
  "files w path = None \<Longrightarrow>
   asar_opener path w = (Inl (ProcessorError (''Can't read '' @ path @ '': '') (Some OSError)), w)"
  by (simp add: asar_opener_def try_except_def open_rb_def raise_def)

lemma opener_no_room:
  assumes "files w path = Some bs" "max (memory w) (length bs) < 4"
  shows "asar_opener path w =
         (Inl MemoryError, new_handle w \<lparr>content = bs, pos = 4, closed = False\<rparr>)"
  using assms
  by (auto simp: asar_opener_def try_except_def open_rb_def seek_def read_def room_def)

lemma opener_short:
  assumes "files w path = Some bs" "length bs < 8" "4 \<le> max (memory w) (length bs)"
  shows "asar_opener path w =
         (Inl StructError, new_handle w \<lparr>content = bs, pos = max 4 (length bs), closed = False\<rparr>)"
  using assms
  by (auto simp: asar_opener_def try_except_def open_rb_def lift_def seek_def read_def room_def
        struct_unpack_I_def Let_def max_def)

lemma opener_negative:
  assumes "files w path = Some bs" "8 \<le> length bs" "uint32_le (take 4 (drop 4 bs)) < 7"
  shows "asar_opener path w =
         (Inl ValueError, new_handle w \<lparr>content = bs, pos = 16, closed = False\<rparr>)"
  using assms uint32_le_bounds [of "take 4 (drop 4 bs)"]
  by (auto simp: asar_opener_def try_except_def open_rb_def lift_def seek_def read_def tell_def
        room_def struct_unpack_I_def header_size_guard_def ret_def Let_def)

lemma opener_large_header:
  assumes "files w path = Some bs" "8 \<le> length bs"
    and "int (max (memory w) (length bs)) < uint32_le (take 4 (drop 4 bs)) - 8"
  shows "asar_opener path w =
         (Inl MemoryError, new_handle w \<lparr>content = bs, pos = 16, closed = False\<rparr>)"
  using assms uint32_le_bounds [of "take 4 (drop 4 bs)"]
  by (auto simp: asar_opener_def try_except_def open_rb_def lift_def seek_def read_def tell_def
        room_def struct_unpack_I_def header_size_guard_def ret_def Let_def)

lemma opener_header:
  assumes "files w path = Some bs" "8 \<le> length bs" "7 \<le> uint32_le (take 4 (drop 4 bs))"
    and "uint32_le (take 4 (drop 4 bs)) - 8 \<le> int (max (memory w) (length bs))"
    and "f = \<lparr>content = bs, pos = 16 + length (header_bytes bs), closed = False\<rparr>"
  shows "asar_opener path w =
         (case decode_utf8 False (header_bytes bs) of
            Inl e \<Rightarrow> (Inl e, new_handle w f)
          | Inr s \<Rightarrow>
              (case json_loads_str s of
                 Inl e \<Rightarrow> (Inl e, new_handle w f)
               | Inr hdr \<Rightarrow>
                   (Inr (length (handles w), hdr, 16 + int (length (header_bytes bs))),
                    new_handle w f)))"
  using assms uint32_le_bounds [of "take 4 (drop 4 bs)"]
  by (auto simp: asar_opener_def try_except_def open_rb_def lift_def seek_def read_def tell_def
        room_def struct_unpack_I_def header_size_guard_def ret_def Let_def header_bytes_def
      split: sum.splits)

text \<open>
  In short: once the file is open, the outcome of \<^verbatim>\<open>_asar_opener\<close> and the file object
  it leaves depend on the bytes of the file and on the memory only, and the file
  object is open.
\<close>

lemma opener_opened:
  "\<exists>r f. \<not> closed f \<and>
     (\<forall>w. files w path = Some bs \<and> memory w = mem \<longrightarrow>
        asar_opener path w
        = (map_sum id (\<lambda>(hdr, base). (length (handles w), hdr, base)) r, new_handle w f))"
proof -
  let ?goal = "\<lambda>r f. \<not> closed f \<and>
     (\<forall>w. files w path = Some bs \<and> memory w = mem \<longrightarrow>
        asar_opener path w
        = (map_sum id (\<lambda>(hdr, base). (length (handles w), hdr, base)) r, new_handle w f))"
  consider (no_room) "max mem (length bs) < 4"
    | (short) "4 \<le> max mem (length bs)" "length bs < 8"
    | (negative) "8 \<le> length bs" "uint32_le (take 4 (drop 4 bs)) < 7"
    | (large) "8 \<le> length bs" "int (max mem (length bs)) < uint32_le (take 4 (drop 4 bs)) - 8"
    | (header) "8 \<le> length bs" "7 \<le> uint32_le (take 4 (drop 4 bs))"
        "uint32_le (take 4 (drop 4 bs)) - 8 \<le> int (max mem (length bs))"
    by linarith
  then show ?thesis
  proof cases
    case no_room
    then have "?goal (Inl MemoryError) \<lparr>content = bs, pos = 4, closed = False\<rparr>"
      by (simp add: opener_no_room)
    then show ?thesis by blast
  next
    case short
    then have "?goal (Inl StructError) \<lparr>content = bs, pos = max 4 (length bs), closed = False\<rparr>"
      by (simp add: opener_short)
    then show ?thesis by blast
  next
    case negative
    then have "?goal (Inl ValueError) \<lparr>content = bs, pos = 16, closed = False\<rparr>"
      by (simp add: opener_negative)
    then show ?thesis by blast
  next
    case large
    then have "?goal (Inl MemoryError) \<lparr>content = bs, pos = 16, closed = False\<rparr>"
      by (simp add: opener_large_header)
    then show ?thesis by blast
  next
    case header
    define f where "f = \<lparr>content = bs, pos = 16 + length (header_bytes bs), closed = False\<rparr>"
    define r where "r = (case decode_utf8 False (header_bytes bs) of
            Inl e \<Rightarrow> Inl e
          | Inr s \<Rightarrow>
              (case json_loads_str s of
                 Inl e \<Rightarrow> Inl e
               | Inr hdr \<Rightarrow> Inr (hdr, 16 + int (length (header_bytes bs)))))"
    have "asar_opener path w
          = (map_sum id (\<lambda>(hdr, base). (length (handles w), hdr, base)) r, new_handle w f)"
      if "files w path = Some bs" "memory w = mem" for w
      using opener_header [OF that(1) header(1,2) _ f_def] header(3) that(2)
      by (simp add: r_def split: sum.splits)
    moreover have "\<not> closed f"
      by (simp add: f_def)
    ultimately have "?goal r f" by simp
    then show ?thesis by blast
  qed
qed

subsection \<open>The outcomes of \<^verbatim>\<open>_extract_package_json\<close> and \<^verbatim>\<open>get_asar_info\<close>\<close>

lemma extract_not_found:
  assumes "subscript hdr ''files'' = Inr fs" "subscript fs (package_json e) = Inl err"
  shows "extract_package_json e h hdr base w =
         (Inl (ProcessorError ''Can't find package JSON: '' (Some err)), w)"
  using assms by (simp add: extract_package_json_def try_except_def lift_def raise_def)

lemma extract_found:
  assumes "subscript hdr ''files'' = Inr fs" "subscript fs (package_json e) = Inr entry"
    and "dict_get entry ''offset'' JNull = Inr off" "py_int off = Inr k"
    and "0 \<le> k + base" "k + base < 2 ^ 63"
    and "dict_get entry ''size'' JNull = Inr sz" "read_size sz = Inr (Some n)"
    and "0 \<le> n" "n < 2 ^ 63 - 33" "n \<le> int (max (memory w) (length (content f)))"
    and "\<not> closed f"
    and "data = take (nat n) (drop (nat (k + base)) (content f))"
  shows "extract_package_json e (length (handles w)) hdr base (new_handle w f) =
         (json_loads_bytes data, new_handle w (f\<lparr>pos := nat (k + base) + length data\<rparr>))"
  using assms
  by (auto simp: extract_package_json_def try_except_def lift_def seek_def read_def room_def
        Let_def)

lemma get_asar_info_after_open:
  assumes "asar_opener path w = (Inr (length (handles w), hdr, base), new_handle w f)"
    and "extract_package_json e (length (handles w)) hdr base (new_handle w f)
         = (r, new_handle w f')"
  shows "get_asar_info e path w = (wrap_extract r, new_handle w (f'\<lparr>closed := True\<rparr>))"
  using assms
  by (auto simp: get_asar_info_def try_finally_def try_except_def close_def raise_def
        wrap_extract_def split: sum.splits)

lemma get_asar_info_opener_fails:
  assumes "asar_opener path w = (Inl err, w')"
  shows "get_asar_info e path w = (Inl err, w')"
  using assms by (simp add: get_asar_info_def)

subsection \<open>Confinement to the newest file object\<close>

lemma confinedI:
  assumes "\<And>f. \<exists>r f'. \<forall>w. memory w = mem \<longrightarrow>
             m (length (handles w)) (new_handle w f) = (r, new_handle w f')"
  shows "confined mem m"
  using assms by (simp add: confined_def)

lemma confinedD:
  assumes "confined mem m"
  shows "\<exists>r f'. \<forall>w. memory w = mem \<longrightarrow>
           m (length (handles w)) (new_handle w f) = (r, new_handle w f')"
  using assms unfolding confined_def by blast

lemma confined_lift: "confined mem (\<lambda>h. lift x)"
  by (auto simp: confined_def lift_def)

lemma confined_raise: "confined mem (\<lambda>h. raise x)"
  by (auto simp: confined_def raise_def)

lemma confined_at: "confined mem (\<lambda>h. at h m)"
  by (auto simp: confined_def)

lemma confined_read_at: "confined mem (\<lambda>h. read_at h sz)"
  by (auto simp: confined_def)

lemma confined_bnd:
  assumes m: "confined mem m" and k: "\<And>x. confined mem (k x)"
  shows "confined mem (\<lambda>h. bnd (m h) (\<lambda>x. k x h))"
proof (rule confinedI)
  fix f
  from confinedD [OF m, of f] obtain r f1
    where r: "\<And>w. memory w = mem \<Longrightarrow>
                m (length (handles w)) (new_handle w f) = (r, new_handle w f1)"
    by blast
  show "\<exists>r f'. \<forall>w. memory w = mem \<longrightarrow>
          bnd (m (length (handles w))) (\<lambda>x. k x (length (handles w))) (new_handle w f)
          = (r, new_handle w f')"
  proof (cases r)
    case (Inl e)
    with r show ?thesis by (auto simp: bnd_def)
  next
    case (Inr x)
    from confinedD [OF k [of x], of f1] obtain r2 f2
      where "\<And>w. memory w = mem \<Longrightarrow>
               k x (length (handles w)) (new_handle w f1) = (r2, new_handle w f2)"
      by blast
    with r Inr show ?thesis by (auto simp: bnd_def)
  qed
qed

lemma confined_try_except:
  assumes m: "confined mem m" and k: "\<And>x. confined mem (k x)"
  shows "confined mem (\<lambda>h. try_except (m h) (\<lambda>x. k x h))"
proof (rule confinedI)
  fix f
  from confinedD [OF m, of f] obtain r f1
    where r: "\<And>w. memory w = mem \<Longrightarrow>
                m (length (handles w)) (new_handle w f) = (r, new_handle w f1)"
    by blast
  show "\<exists>r f'. \<forall>w. memory w = mem \<longrightarrow>
          try_except (m (length (handles w))) (\<lambda>x. k x (length (handles w))) (new_handle w f)
          = (r, new_handle w f')"
  proof (cases r)
    case (Inr x)
    with r show ?thesis by (auto simp: try_except_def)
  next
    case (Inl e)
    from confinedD [OF k [of e], of f1] obtain r2 f2
      where "\<And>w. memory w = mem \<Longrightarrow>
               k e (length (handles w)) (new_handle w f1) = (r2, new_handle w f2)"
      by blast
    with r Inl show ?thesis by (auto simp: try_except_def)
  qed
qed

lemma confined_extract: "confined mem (\<lambda>h. extract_package_json e h hdr base)"
  unfolding extract_package_json_def Let_def
  by (intro confined_bnd confined_try_except confined_lift confined_at confined_read_at
        confined_raise)

subsection \<open>What \<^verbatim>\<open>get_asar_info\<close> depends on\<close>

lemma new_handle_inject: "new_handle w f = new_handle w g \<Longrightarrow> f = g"
proof -
  assume "new_handle w f = new_handle w g"
  then have "handles (new_handle w f) = handles (new_handle w g)"
    by simp
  then show "f = g"
    by simp
qed

lemma opener_success:
  assumes "asar_opener path w = (Inr (h, hdr, base), w')"
  shows "h = length (handles w) \<and> (\<exists>f. w' = new_handle w f \<and> \<not> closed f)"
proof (cases "files w path")
  case None
  with assms show ?thesis by (simp add: opener_missing)
next
  case (Some bs)
  from opener_opened [of path bs "memory w"] obtain r f where "\<not> closed f"
    and "asar_opener path w
         = (map_sum id (\<lambda>(hdr, base). (length (handles w), hdr, base)) r, new_handle w f)"
    using Some by blast
  with assms show ?thesis
    by (cases r) auto
qed

lemma get_asar_info_confined:
  "\<exists>r f. \<forall>w. files w path = Some bs \<and> memory w = mem \<longrightarrow>
           get_asar_info e path w = (r, new_handle w f)"
proof -
  from opener_opened [of path bs mem] obtain r f where
    op: "\<And>w. files w path = Some bs \<Longrightarrow> memory w = mem \<Longrightarrow>
           asar_opener path w
           = (map_sum id (\<lambda>(hdr, base). (length (handles w), hdr, base)) r, new_handle w f)"
    by blast
  show ?thesis
  proof (cases r)
    case (Inl err)
    have "get_asar_info e path w = (Inl err, new_handle w f)"
      if "files w path = Some bs" "memory w = mem" for w
      using op [OF that] Inl by (intro get_asar_info_opener_fails) simp
    then show ?thesis by blast
  next
    case (Inr p)
    obtain hdr base where p: "p = (hdr, base)"
      by (cases p)
    from confinedD [OF confined_extract, of mem e hdr base f]
    obtain r' f' where
      ex: "\<And>w. memory w = mem \<Longrightarrow>
             extract_package_json e (length (handles w)) hdr base (new_handle w f)
             = (r', new_handle w f')"
      by blast
    have "get_asar_info e path w = (wrap_extract r', new_handle w (f'\<lparr>closed := True\<rparr>))"
      if "files w path = Some bs" "memory w = mem" for w
    proof (rule get_asar_info_after_open)
      from op [OF that] Inr p
      show "asar_opener path w = (Inr (length (handles w), hdr, base), new_handle w f)"
        by simp
      show "extract_package_json e (length (handles w)) hdr base (new_handle w f)
            = (r', new_handle w f')"
        by (rule ex [OF that(2)])
    qed
    then show ?thesis by blast
  qed
qed

lemma get_asar_info_missing:
  assumes "files w path = None"
  shows "get_asar_info e path w
         = (Inl (ProcessorError (''Can't read '' @ path @ '': '') (Some OSError)), w)"
  by (rule get_asar_info_opener_fails [OF opener_missing [OF assms]])

lemma get_asar_info_files:
  "files (snd (get_asar_info e path w)) = files w
   \<and> memory (snd (get_asar_info e path w)) = memory w"
proof (cases "files w path")
  case None
  show ?thesis
    unfolding get_asar_info_missing [OF None] by simp
next
  case (Some bs)
  from get_asar_info_confined [of path bs "memory w" e] obtain r f
    where "\<And>w'. files w' path = Some bs \<Longrightarrow> memory w' = memory w \<Longrightarrow>
             get_asar_info e path w' = (r, new_handle w' f)"
    by blast
  from this [OF Some refl] show ?thesis by simp
qed

lemma get_asar_info_same:
  assumes "files w' = files w" "memory w' = memory w"
  shows "fst (get_asar_info e path w') = fst (get_asar_info e path w)"
proof (cases "files w path")
  case None
  with assms have None': "files w' path = None" by simp
  show ?thesis
    unfolding get_asar_info_missing [OF None] get_asar_info_missing [OF None'] by simp
next
  case (Some bs)
  from get_asar_info_confined [of path bs "memory w" e] obtain r f
    where r: "\<And>v. files v path = Some bs \<Longrightarrow> memory v = memory w \<Longrightarrow>
                get_asar_info e path v = (r, new_handle v f)"
    by blast
  from Some assms have "files w' path = Some bs" by simp
  from r [OF this assms(2)] r [OF Some refl] show ?thesis by simp
qed

subsection \<open>The guard on the header size\<close>

lemma struct_unpack_I_len: "struct_unpack_I b = Inr t \<Longrightarrow> length t = 1"
  by (auto simp: struct_unpack_I_def split: if_splits)

lemma guard_passes: "struct_unpack_I b = Inr t \<Longrightarrow> header_size_guard path t w = (Inr (), w)"
  by (auto simp: struct_unpack_I_def header_size_guard_def ret_def split: if_splits)

lemma guard_body: "header_size_guard path [] w = (Inl (NameError ''error''), w)"
  by (simp add: header_size_guard_def local_name_def raise_def)

lemma opener_not_guard:
  "fst (asar_opener path w) \<noteq> Inl (NameError ''error'')
   \<and> fst (asar_opener path w)
       \<noteq> Inl (ProcessorError (''Can't determine header size of '' @ path @ '': '') c)"
proof (cases "files w path")
  case None
  then show ?thesis
    by (simp add: asar_opener_def try_except_def open_rb_def raise_def)
next
  case (Some bs)
  then show ?thesis
    by (auto simp: asar_opener_def try_except_def open_rb_def lift_def ret_def Let_def
          struct_unpack_I_def header_size_guard_def seek_def read_def tell_def decode_utf8_def
        split: sum.splits if_splits dest: json_loads_str_error)
qed

text \<open>
  Claim C10. Whenever \<^verbatim>\<open>struct.unpack('I', ...)\<close> succeeds its result has length 1, so
  the guard \<^verbatim>\<open>len(header_size) <= 0\<close> of \<^verbatim>\<open>_asar_opener\<close> passes and its error branch
  is never taken: \<^verbatim>\<open>_asar_opener\<close> never raises the error the branch was written for.
  Were the branch run (on an empty tuple), reading the unbound name \<^verbatim>\<open>error\<close> would
  raise \<^verbatim>\<open>NameError\<close> in place of the \<^verbatim>\<open>ProcessorError\<close>.
\<close>

theorem header_size_guard_unreachable:
  "(struct_unpack_I b = Inr t \<longrightarrow> length t = 1 \<and> header_size_guard path t w = (Inr (), w))
   \<and> header_size_guard path [] w = (Inl (NameError ''error''), w)
   \<and> fst (asar_opener path w) \<noteq> Inl (NameError ''error'')
   \<and> fst (asar_opener path w)
       \<noteq> Inl (ProcessorError (''Can't determine header size of '' @ path @ '': '') c)"
  using opener_not_guard [of path w c] guard_body [of path w]
  by (auto dest: struct_unpack_I_len guard_passes)

theorem header_size_guard_unreachable_witness:
  "struct_unpack_I [33, 0, 0, 0] = Inr [33] \<and> length [33 :: int] = 1
   \<and> header_size_guard ''app.asar'' [33] empty_world = (Inr (), empty_world)"
  using header_size_guard_unreachable [of "[33, 0, 0, 0]" "[33]" "''app.asar''" empty_world]
  by (simp add: struct_unpack_I_def uint32_le_def)

subsection \<open>Repeated extraction\<close>

text \<open>
  Claim C9. Two invocations of \<^verbatim>\<open>get_asar_info\<close> in a row, the second in the world the
  first has left (with the file object of the first still in it, closed or not),
  have the same outcome: the same parsed value or the same exception, and so the same
  version derived from it. The first invocation leaves the file system as it was.
\<close>

theorem extraction_idempotent:
  "fst (get_asar_info e path (snd (get_asar_info e path w))) = fst (get_asar_info e path w)
   \<and> (case fst (get_asar_info e path (snd (get_asar_info e path w))) of
        Inl x \<Rightarrow> Inl x
      | Inr d \<Rightarrow> dict_get d (version_key e) (JString UNKNOWN_VERSION))
     = (case fst (get_asar_info e path w) of
          Inl x \<Rightarrow> Inl x
        | Inr d \<Rightarrow> dict_get d (version_key e) (JString UNKNOWN_VERSION))
   \<and> files (snd (get_asar_info e path w)) = files w"
proof -
  have same: "fst (get_asar_info e path (snd (get_asar_info e path w)))
              = fst (get_asar_info e path w)"
    by (rule get_asar_info_same) (simp_all add: get_asar_info_files)
  show ?thesis
    unfolding same by (simp add: get_asar_info_files)
qed

subsection \<open>The length of a JSON text\<close>

lemma pairs_update:
  "sum_list (map (\<lambda>kv. 2 + tokens (snd kv)) (AList.update k v kvs))
   \<le> sum_list (map (\<lambda>kv. 2 + tokens (snd kv)) kvs) + 2 + tokens v"
  by (induction kvs) auto

lemma length_update_le: "length (AList.update k v kvs) \<le> length kvs + 1"
  by (induction kvs) auto

lemma complete_cost:
  "sum_list (map pending st) + tokens v \<le> n \<Longrightarrow> cost (complete v st) \<le> n"
proof (induction v st rule: complete.induct)
  case (3 v kvs k st)
  from pairs_update [of k v kvs] length_update_le [of k v kvs] 3 show ?case
    by simp
qed simp_all

lemma step_cost: "cost (step cfg t) \<le> cost cfg + weight t"
proof (cases cfg)
  case (Pair x st)
  show ?thesis
  proof (cases x)
    case XValue
    with Pair show ?thesis
      by (auto simp: step_def start_value_def intro!: complete_cost split: token.splits)
  next
    case XValueOrEnd
    with Pair show ?thesis
      by (auto simp: step_def start_value_def close_array_def intro!: complete_cost
            split: token.splits list.splits frame.splits)
  next
    case XKeyOrEnd
    with Pair show ?thesis
      by (auto simp: step_def take_key_def close_object_def intro!: complete_cost
            split: token.splits list.splits frame.splits)
  next
    case XKey
    with Pair show ?thesis
      by (auto simp: step_def take_key_def split: token.splits list.splits frame.splits)
  next
    case XColon
    with Pair show ?thesis
      by (auto simp: step_def)
  next
    case XCommaOrEnd
    with Pair show ?thesis
      by (auto simp: step_def close_array_def close_object_def intro!: complete_cost
            split: token.splits list.splits frame.splits)
  next
    case (XDone v)
    with Pair show ?thesis
      by (simp add: step_def)
  next
    case XError
    with Pair show ?thesis
      by (simp add: step_def)
  qed
qed

lemma foldl_step_cost: "cost (foldl step cfg ts) \<le> cost cfg + sum_list (map weight ts)"
proof (induction ts arbitrary: cfg)
  case Nil
  show ?case by simp
next
  case (Cons t ts)
  from Cons [of "step cfg t"] step_cost [of cfg t] show ?case
    by simp
qed

lemma parse_tokens: "parse ts = Some v \<Longrightarrow> tokens v \<le> sum_list (map weight ts)"
  using foldl_step_cost [of "(XValue, [])" ts]
  by (auto simp: parse_def split: prod.splits expect.splits)

lemma next_token_weight: "next_token s = Some (tok, n) \<Longrightarrow> weight tok = 1"
  by (cases s)
     (auto simp: next_token_def literal_def scan_number_def Let_def split: if_splits)

lemma tokenize_length: "tokenize s = Some ts \<Longrightarrow> sum_list (map weight ts) \<le> length s"
proof (induction s arbitrary: ts rule: tokenize.induct)
  case 1
  then show ?case by simp
next
  case (2 c cs)
  show ?case
  proof (cases "is_ws c")
    case True
    with 2 show ?thesis by force
  next
    case False
    with 2(3) obtain tok n ts' where nt: "next_token (c # cs) = Some (tok, n)"
      and ts': "tokenize (drop (n - 1) cs) = Some ts'" and ts: "ts = tok # ts'"
      by (auto split: option.splits)
    from 2(2) [OF False nt refl ts'] have "sum_list (map weight ts') \<le> length cs"
      by simp
    with ts next_token_weight [OF nt] show ?thesis by simp
  qed
qed

lemma json_loads_str_tokens: "json_loads_str s = Inr v \<Longrightarrow> tokens v \<le> length s"
proof -
  assume "json_loads_str s = Inr v"
  then obtain ts where "tokenize s = Some ts" "parse ts = Some v"
    by (auto simp: json_loads_str_def json_decode_def split: if_splits option.splits)
  from tokenize_length [OF this(1)] parse_tokens [OF this(2)] show ?thesis
    by simp
qed

lemma decode_utf8_length: "decode_utf8 sp b = Inr s \<Longrightarrow> length s = length b"
  by (auto simp: decode_utf8_def to_str_def split: if_splits)

lemma header_length:
  assumes "decode_utf8 False (take L (drop 16 bs)) = Inr header"
    and "json_loads_str header
         = Inr (JObject [(''files'', JObject [(name, JObject [(''size'', JInt n), (''offset'', JString ks)])])])"
  shows "17 \<le> L"
  using decode_utf8_length [OF assms(1)] json_loads_str_tokens [OF assms(2)]
  by simp

subsection \<open>The bytes of the example archives\<close>

lemma unat_encode: "unat (word_of_nat (of_char c) :: byte) = of_char c"
proof -
  have "(of_char c :: nat) < 256"
    by (rule nat_of_char_less_256)
  then show ?thesis
    by (simp add: unat_of_nat)
qed

lemma map_unat_encode: "map unat (encode s) = map of_char s"
  by (simp add: encode_def unat_encode)

lemma to_str_encode: "to_str (encode s) = s"
  by (simp add: to_str_def encode_def unat_encode map_idI)

lemma take_encode: "take n (encode s) = encode (take n s)"
  by (simp add: encode_def take_map)

lemma drop_encode: "drop n (encode s) = encode (drop n s)"
  by (simp add: encode_def drop_map)

lemma length_encode: "length (encode s) = length s"
  by (simp add: encode_def)

lemma decode_utf8_encode:
  "decode_utf8 sp (encode s) = (if utf8_valid sp (map of_char s) then Inr s else Inl UnicodeDecodeError)"
  by (simp add: decode_utf8_def map_unat_encode to_str_encode)

lemma archive_length: "length (archive v h d) = 16 + length h + length d"
  by (simp add: archive_def pack_I_def encode_def)

lemma archive_drop: "drop (16 + n) (archive v h d) = drop n (encode h @ encode d)"
proof -
  have "archive v h d = ([0, 0, 0, 0] @ pack_I v @ replicate 8 0) @ (encode h @ encode d)"
    by (simp add: archive_def)
  moreover have "length ([0, 0, 0, 0] @ pack_I v @ replicate 8 (0 :: byte)) = 16"
    by (simp add: pack_I_def)
  ultimately show ?thesis
    by (simp only: drop_append) simp
qed

lemma archive_drop16: "drop 16 (archive v h d) = encode h @ encode d"
  using archive_drop [of 0 v h d] by simp

lemma encode_Nil: "encode [] = []"
  by (simp add: encode_def)

lemma archive_header: "take (length h) (drop 16 (archive v h d)) = encode h"
  by (simp add: archive_drop16 length_encode)

lemma archive_entry: "drop (16 + length h + k) (archive v h d) = encode (drop k d)"
proof -
  have "drop (16 + (length h + k)) (archive v h d) = drop (length h + k) (encode h @ encode d)"
    by (rule archive_drop)
  then show ?thesis
    by (simp add: length_encode drop_encode add.assoc encode_Nil)
qed

lemmas encode_simps = map_unat_encode to_str_encode take_encode drop_encode length_encode
  decode_utf8_encode archive_length archive_drop16 encode_Nil

lemma archive_size_field: "take 4 (drop 4 (archive v h d)) = pack_I v"
  by (simp add: archive_def pack_I_def)

lemma header_bytes_archive:
  assumes "uint32_le (pack_I v) = 8 + int (length h)"
  shows "header_bytes (archive v h d) = encode h"
  using assms by (simp add: header_bytes_def archive_size_field archive_header)

lemma header_bytes_archive_all:
  assumes "uint32_le (pack_I v) = 7"
  shows "header_bytes (archive v h d) = encode h @ encode d"
  using assms by (simp add: header_bytes_def archive_size_field archive_drop16)

lemma world_of_memory: "memory (world_of bs) = 2 ^ 30"
  by (simp add: world_of_def)

lemma world_of_files: "files (world_of bs) ''app.asar'' = Some bs"
  by (simp add: world_of_def)

lemma good_header_length: "length good_header_text = 51"
  by (simp add: good_header_text_def)

lemma good_json: "json_loads_str good_header_text = Inr good_header"
  by code_simp

lemma good_entry_json:
  "json_decode ''{\"version\":\"1.2\"}'' = Inr (JObject [(''version'', JString ''1.2'')])"
  by code_simp

lemma int_of_str_3: "int_of_str ''3'' = Inr 3"
  by code_simp

subsection \<open>A well-formed archive\<close>

lemma well_formed_run:
  assumes fil: "files w path = Some bs"
    and fits: "16 + L + K + N \<le> length bs" "length bs < 2 ^ 63"
    and field: "uint32_le (take 4 (drop 4 bs)) = 8 + int L"
    and dec: "decode_utf8 False (take L (drop 16 bs)) = Inr header"
    and json: "json_loads_str header = Inr hdr"
    and hdr: "hdr = JObject [(''files'', JObject [(package_json e,
                JObject [(''size'', JInt (int N)), (''offset'', JString ks)])])]"
    and off: "int_of_str ks = Inr (int K)"
    and val: "json_loads_bytes (take N (drop (16 + L + K) bs)) = Inr v"
  shows "asar_opener path w
         = (Inr (length (handles w), hdr, 16 + int L),
            new_handle w \<lparr>content = bs, pos = 16 + L, closed = False\<rparr>)
       \<and> extract_package_json e (length (handles w)) hdr (16 + int L)
           (new_handle w \<lparr>content = bs, pos = 16 + L, closed = False\<rparr>)
         = (Inr v, new_handle w \<lparr>content = bs, pos = 16 + L + K + N, closed = False\<rparr>)
       \<and> get_asar_info e path w
         = (Inr v, new_handle w \<lparr>content = bs, pos = 16 + L + K + N, closed = True\<rparr>)"
proof -
  define f where "f = \<lparr>content = bs, pos = 16 + L, closed = False\<rparr>"
  have long: "17 \<le> L"
    using dec json unfolding hdr by (rule header_length)
  have hb: "header_bytes bs = take L (drop 16 bs)"
    using field by (simp add: header_bytes_def)
  have len: "length (header_bytes bs) = L"
    using fits by (simp add: hb)
  have "asar_opener path w =
         (case decode_utf8 False (header_bytes bs) of
            Inl e \<Rightarrow> (Inl e, new_handle w f)
          | Inr s \<Rightarrow>
              (case json_loads_str s of
                 Inl e \<Rightarrow> (Inl e, new_handle w f)
               | Inr hdr \<Rightarrow>
                   (Inr (length (handles w), hdr, 16 + int (length (header_bytes bs))),
                    new_handle w f)))"
    using fil fits field by (intro opener_header) (simp_all add: f_def len)
  then have op: "asar_opener path w = (Inr (length (handles w), hdr, 16 + int L), new_handle w f)"
    using dec json fits by (simp add: hb)
  have data: "length (take N (drop (16 + L + K) bs)) = N"
    using fits by simp
  have "extract_package_json e (length (handles w)) hdr (16 + int L) (new_handle w f)
        = (json_loads_bytes (take N (drop (16 + L + K) bs)),
           new_handle w (f\<lparr>pos := nat (int K + (16 + int L)) + length (take N (drop (16 + L + K) bs))\<rparr>))"
  proof (rule extract_found)
    show "subscript hdr ''files'' = Inr (JObject [(package_json e,
                JObject [(''size'', JInt (int N)), (''offset'', JString ks)])])"
      by (simp add: hdr subscript_def)
    show "subscript (JObject [(package_json e,
                JObject [(''size'', JInt (int N)), (''offset'', JString ks)])]) (package_json e)
          = Inr (JObject [(''size'', JInt (int N)), (''offset'', JString ks)])"
      by (simp add: subscript_def)
    show "dict_get (JObject [(''size'', JInt (int N)), (''offset'', JString ks)]) ''offset'' JNull
          = Inr (JString ks)"
      by (simp add: dict_get_def)
    show "py_int (JString ks) = Inr (int K)"
      by (simp add: py_int_def off)
    show "dict_get (JObject [(''size'', JInt (int N)), (''offset'', JString ks)]) ''size'' JNull
          = Inr (JInt (int N))"
      by (simp add: dict_get_def)
    show "read_size (JInt (int N)) = Inr (Some (int N))"
      by (simp add: read_size_def)
    show "0 \<le> int K + (16 + int L)" by simp
    show "int K + (16 + int L) < 2 ^ 63"
      using fits by simp
    show "int N < 2 ^ 63 - 33"
      using fits long by simp
    show "int N \<le> int (max (memory w) (length (content f)))"
      using fits by (simp add: f_def)
    show "0 \<le> int N" by simp
    show "\<not> closed f" by (simp add: f_def)
    show "take N (drop (16 + L + K) bs)
          = take (nat (int N)) (drop (nat (int K + (16 + int L))) (content f))"
      by (simp add: f_def nat_add_distrib add.commute add.left_commute)
  qed
  then have ex: "extract_package_json e (length (handles w)) hdr (16 + int L) (new_handle w f)
        = (Inr v, new_handle w \<lparr>content = bs, pos = 16 + L + K + N, closed = False\<rparr>)"
    using fits by (simp add: val f_def nat_add_distrib min_def)
  from get_asar_info_after_open [OF op ex]
  have "get_asar_info e path w
        = (Inr v, new_handle w \<lparr>content = bs, pos = 16 + L + K + N, closed = True\<rparr>)"
    by (simp add: wrap_extract_def)
  with op ex show ?thesis
    by (simp add: f_def)
qed

lemma good_fits: "16 + 51 + 3 + 17 \<le> length good_archive" "length good_archive < 2 ^ 63"
  by (simp_all add: good_archive_def archive_length good_header_length)

lemma good_field: "uint32_le (take 4 (drop 4 good_archive)) = 8 + int 51"
  by (simp add: good_archive_def archive_size_field pack_I_def uint32_le_def)

lemma good_dec: "decode_utf8 False (take 51 (drop 16 good_archive)) = Inr good_header_text"
  using archive_header [of good_header_text 59 "''xyz{\"version\":\"1.2\"}''"]
  by (simp add: good_archive_def good_header_length decode_utf8_encode)
     (simp add: good_header_text_def cont_def)

lemma good_hdr:
  "good_header = JObject [(''files'', JObject [(package_json example_env,
     JObject [(''size'', JInt (int 17)), (''offset'', JString ''3'')])])]"
  by (simp add: good_header_def example_env_def)

lemma good_off: "int_of_str ''3'' = Inr (int 3)"
  by (simp add: int_of_str_3)

lemma good_val:
  "json_loads_bytes (take 17 (drop (16 + 51 + 3) good_archive))
   = Inr (JObject [(''version'', JString ''1.2'')])"
proof -
  have "drop (16 + 51 + 3) good_archive = encode ''{\"version\":\"1.2\"}''"
    using archive_entry [of good_header_text 3 59 "''xyz{\"version\":\"1.2\"}''"]
    by (simp add: good_archive_def good_header_length)
  then show ?thesis
    by (simp add: json_loads_bytes_def decode_detected_def encode_simps cont_def Let_def
          good_entry_json)
qed

lemma good_run:
  "get_asar_info example_env ''app.asar'' (world_of good_archive)
   = (Inr (JObject [(''version'', JString ''1.2'')]),
      new_handle (world_of good_archive) \<lparr>content = good_archive, pos = 87, closed = True\<rparr>)"
  using well_formed_run [OF world_of_files good_fits good_field good_dec good_json good_hdr
      good_off good_val]
  by simp

subsection \<open>Round trip\<close>

text \<open>
  Claim C1. Take an archive \<open>bs\<close> whose size field encodes \<open>8 + L\<close>, whose bytes
  16 to \<open>16 + L\<close> are the UTF-8 text of the header
  \<^verbatim>\<open>{"files": {name: {"size": N, "offset": "K"}}}\<close>, and whose \<open>N\<close> bytes from
  \<open>16 + L + K\<close> on are a JSON text of value \<open>v\<close>. Then \<^verbatim>\<open>_asar_opener\<close> reads exactly
  \<open>L\<close> bytes of header and returns the header with the data offset \<open>16 + L\<close>,
  \<^verbatim>\<open>_extract_package_json\<close> returns \<open>v\<close>, and so does \<^verbatim>\<open>get_asar_info\<close>, which closes the
  file.
\<close>

theorem round_trip:
  assumes fil: "files w path = Some bs"
    and fits: "16 + L + K + N \<le> length bs" "length bs < 2 ^ 63"
    and field: "uint32_le (take 4 (drop 4 bs)) = 8 + int L"
    and dec: "decode_utf8 False (take L (drop 16 bs)) = Inr header"
    and json: "json_loads_str header = Inr hdr"
    and hdr: "hdr = JObject [(''files'', JObject [(package_json e,
                JObject [(''size'', JInt (int N)), (''offset'', JString ks)])])]"
    and off: "int_of_str ks = Inr (int K)"
    and val: "json_loads_bytes (take N (drop (16 + L + K) bs)) = Inr v"
  shows "asar_opener path w
         = (Inr (length (handles w), hdr, 16 + int L),
            new_handle w \<lparr>content = bs, pos = 16 + L, closed = False\<rparr>)
       \<and> extract_package_json e (length (handles w)) hdr (16 + int L)
           (new_handle w \<lparr>content = bs, pos = 16 + L, closed = False\<rparr>)
         = (Inr v, new_handle w \<lparr>content = bs, pos = 16 + L + K + N, closed = False\<rparr>)
       \<and> get_asar_info e path w
         = (Inr v, new_handle w \<lparr>content = bs, pos = 16 + L + K + N, closed = True\<rparr>)"
  using assms by (rule well_formed_run)

theorem round_trip_witness:
  "get_asar_info example_env ''app.asar'' (world_of good_archive)
   = (Inr (JObject [(''version'', JString ''1.2'')]),
      new_handle (world_of good_archive) \<lparr>content = good_archive, pos = 87, closed = True\<rparr>)"
  using round_trip [OF world_of_files good_fits good_field good_dec good_json good_hdr
      good_off good_val]
  by simp

subsection \<open>A short size field\<close>

text \<open>
  Claim C8. An archive of fewer than eight bytes should fail with a processing error
  that says the header is truncated. Here the archive has five bytes: the read of the
  size field returns one byte, \<^verbatim>\<open>struct.unpack\<close> raises \<^verbatim>\<open>struct.error\<close>, and
  \<^verbatim>\<open>_asar_opener\<close> lets it through; the guard written for the case comes after the
  call that raises.
\<close>

theorem short_size_field:
  "asar_opener ''app.asar'' (world_of short_archive)
   = (Inl StructError,
      new_handle (world_of short_archive) \<lparr>content = short_archive, pos = 5, closed = False\<rparr>)"
proof -
  have "length short_archive < 8"
    by (simp add: short_archive_def)
  from opener_short [OF world_of_files this] show ?thesis
    by (simp add: short_archive_def world_of_memory)
qed

subsection \<open>The file object after a failure in the header\<close>

lemma bad_header_json: "json_loads_str ''{x'' = Inl JSONDecodeError"
  by code_simp

text \<open>
  Claim C2. The file should be closed on every exit. Here the header of the archive
  is not a JSON text: \<^verbatim>\<open>get_asar_info\<close> raises the decoder's error from
  \<^verbatim>\<open>_asar_opener\<close>, which stands before the \<^verbatim>\<open>try\<close> statement, and the file object
  is left open.
\<close>

theorem handle_left_open:
  "get_asar_info example_env ''app.asar'' (world_of bad_header_archive)
   = (Inl JSONDecodeError,
      new_handle (world_of bad_header_archive)
        \<lparr>content = bad_header_archive, pos = 18, closed = False\<rparr>)"
proof -
  have len: "8 \<le> length bad_header_archive"
    by (simp add: bad_header_archive_def archive_length)
  have field: "7 \<le> uint32_le (take 4 (drop 4 bad_header_archive))"
    by (simp add: bad_header_archive_def archive_size_field pack_I_def uint32_le_def)
  have hb: "header_bytes bad_header_archive = encode ''{x''"
    unfolding bad_header_archive_def
    by (rule header_bytes_archive) (simp add: pack_I_def uint32_le_def)
  have room: "uint32_le (take 4 (drop 4 bad_header_archive)) - 8
              \<le> int (max (memory (world_of bad_header_archive)) (length bad_header_archive))"
    by (simp add: bad_header_archive_def archive_size_field pack_I_def uint32_le_def
          world_of_memory)
  from opener_header [OF world_of_files len field room refl]
  have "asar_opener ''app.asar'' (world_of bad_header_archive)
        = (Inl JSONDecodeError,
           new_handle (world_of bad_header_archive)
             \<lparr>content = bad_header_archive, pos = 18, closed = False\<rparr>)"
    by (simp add: hb decode_utf8_encode length_encode bad_header_json)
  then show ?thesis
    by (rule get_asar_info_opener_fails)
qed

subsection \<open>A size field below 8\<close>

lemma no_entry_json: "json_loads_str ''{\"files\":{}}'' = Inr (JObject [(''files'', JObject [])])"
  by code_simp

text \<open>
  Claim C3 as stated fails: with the size field 7 the length of the header is \<open>-1\<close>,
  which \<^verbatim>\<open>read\<close> takes as "to the end of the file", and \<^verbatim>\<open>_asar_opener\<close> succeeds.
\<close>

theorem negative_size_counterexample:
  "uint32_le (take 4 (drop 4 read_all_archive)) = 7
   \<and> asar_opener ''app.asar'' (world_of read_all_archive)
     = (Inr (0, JObject [(''files'', JObject [])], 28),
        new_handle (world_of read_all_archive)
          \<lparr>content = read_all_archive, pos = 28, closed = False\<rparr>)"
proof -
  have len: "8 \<le> length read_all_archive"
    by (simp add: read_all_archive_def archive_length)
  have field: "uint32_le (take 4 (drop 4 read_all_archive)) = 7"
    by (simp add: read_all_archive_def archive_size_field pack_I_def uint32_le_def)
  then have field': "7 \<le> uint32_le (take 4 (drop 4 read_all_archive))"
    by simp
  have hb: "header_bytes read_all_archive = encode ''{\"files\":{}}''"
    unfolding read_all_archive_def
    by (simp add: header_bytes_archive_all pack_I_def uint32_le_def encode_Nil)
  have room: "uint32_le (take 4 (drop 4 read_all_archive)) - 8
              \<le> int (max (memory (world_of read_all_archive)) (length read_all_archive))"
    by (simp add: field)
  from opener_header [OF world_of_files len field' room refl]
  have "asar_opener ''app.asar'' (world_of read_all_archive)
     = (Inr (0, JObject [(''files'', JObject [])], 28),
        new_handle (world_of read_all_archive)
          \<lparr>content = read_all_archive, pos = 28, closed = False\<rparr>)"
    by (simp add: hb decode_utf8_encode length_encode no_entry_json cont_def world_of_def)
  with field show ?thesis by simp
qed

text \<open>
  Claim C3, amended. For a size field below 7 (an archive of at least eight bytes),
  \<^verbatim>\<open>read\<close> is called with a length below \<open>-1\<close> and raises \<^verbatim>\<open>ValueError\<close> with the position
  still at byte 16, so that no byte of the header is read. \<^verbatim>\<open>_asar_opener\<close> and
  \<^verbatim>\<open>get_asar_info\<close> raise that \<^verbatim>\<open>ValueError\<close> as it is, and \<^verbatim>\<open>main\<close>, run on the path of a
  plain file, raises a \<^verbatim>\<open>ProcessorError\<close> whose cause it is.
\<close>

theorem negative_header_size:
  assumes "files w (input_asar_path e) = Some bs" and "8 \<le> length bs"
    and "uint32_le (take 4 (drop 4 bs)) < 7"
  shows "fst (asar_opener (input_asar_path e) w) = Inl ValueError
       \<and> pos (handles (snd (asar_opener (input_asar_path e) w)) ! length (handles w)) = 16
       \<and> fst (get_asar_info e (input_asar_path e) w) = Inl ValueError
       \<and> fst (main read_plain e w) = Inl (ProcessorError [] (Some ValueError))"
proof -
  note op = opener_negative [OF assms]
  note info = get_asar_info_opener_fails [OF op, of e]
  have "fst (main read_plain e w) = Inl (ProcessorError [] (Some ValueError))"
    by (simp add: main_def read_plain_def try_except_def bnd_def raise_def info)
  with op info show ?thesis
    by simp
qed

theorem negative_header_size_witness:
  "fst (asar_opener ''app.asar'' (world_of negative_archive)) = Inl ValueError
   \<and> pos (handles (snd (asar_opener ''app.asar'' (world_of negative_archive))) ! 0) = 16
   \<and> fst (get_asar_info example_env ''app.asar'' (world_of negative_archive)) = Inl ValueError
   \<and> fst (main read_plain example_env (world_of negative_archive))
     = Inl (ProcessorError [] (Some ValueError))"
proof -
  have fil: "files (world_of negative_archive) (input_asar_path example_env)
             = Some negative_archive"
    by (simp add: world_of_def example_env_def)
  have len: "8 \<le> length negative_archive"
    by (simp add: negative_archive_def archive_length)
  have field: "uint32_le (take 4 (drop 4 negative_archive)) < 7"
    by (simp add: negative_archive_def archive_size_field pack_I_def uint32_le_def)
  have path: "input_asar_path example_env = ''app.asar''"
    by (simp add: example_env_def)
  have none: "length (handles (world_of negative_archive)) = 0"
    by (simp add: world_of_def)
  from negative_header_size [OF fil len field] show ?thesis
    unfolding path none .
qed

subsection \<open>An entry that the file cuts short\<close>

lemma short_entry_json: "json_loads_str short_entry_header_text = Inr short_entry_header"
  by code_simp

lemma short_entry_header_length: "length short_entry_header_text = 50"
  by (simp add: short_entry_header_text_def)

lemma json_decode_1: "json_decode ''1'' = Inr (JInt 1)"
  by code_simp

lemma int_of_str_0: "int_of_str ''0'' = Inr 0"
  by code_simp

lemma truncated_opener:
  "asar_opener ''app.asar'' (world_of truncated_archive)
   = (Inr (length (handles (world_of truncated_archive)), short_entry_header, 66),
      new_handle (world_of truncated_archive)
        \<lparr>content = truncated_archive, pos = 66, closed = False\<rparr>)"
proof -
  have len: "8 \<le> length truncated_archive"
    by (simp add: truncated_archive_def archive_length)
  have field: "7 \<le> uint32_le (take 4 (drop 4 truncated_archive))"
    by (simp add: truncated_archive_def archive_size_field pack_I_def uint32_le_def)
  have hb: "header_bytes truncated_archive = encode short_entry_header_text"
    unfolding truncated_archive_def
    by (rule header_bytes_archive)
       (simp add: pack_I_def uint32_le_def short_entry_header_length)
  have valid: "utf8_valid False (map of_char short_entry_header_text)"
    by (simp add: short_entry_header_text_def)
  have room: "uint32_le (take 4 (drop 4 truncated_archive)) - 8
              \<le> int (max (memory (world_of truncated_archive)) (length truncated_archive))"
    by (simp add: truncated_archive_def archive_size_field pack_I_def uint32_le_def
          world_of_memory)
  from opener_header [OF world_of_files len field room refl] show ?thesis
    by (simp add: hb decode_utf8_encode length_encode valid short_entry_json
          short_entry_header_length)
qed

lemma truncated_length: "length truncated_archive = 67"
  by (simp add: truncated_archive_def archive_length short_entry_header_length)

lemma truncated_rest: "drop 66 truncated_archive = encode ''1''"
  using archive_entry [of short_entry_header_text 0 58 "''1''"]
  by (simp add: truncated_archive_def short_entry_header_length)

lemma truncated_value: "json_loads_bytes (encode ''1'') = Inr (JInt 1)"
  by (simp add: json_loads_bytes_def decode_detected_def encode_simps Let_def json_decode_1)

text \<open>
  Claim C4 as stated fails: the header declares two bytes for the entry, the file ends
  after one, and the extraction returns the value of that one byte.
\<close>

theorem truncated_entry_counterexample:
  "length truncated_archive = 67
   \<and> fst (asar_opener ''app.asar'' (world_of truncated_archive)) = Inr (0, short_entry_header, 66)
   \<and> dict_get (JObject [(''size'', JInt 2), (''offset'', JString ''0'')]) ''size'' JNull = Inr (JInt 2)
   \<and> fst (get_asar_info example_env ''app.asar'' (world_of truncated_archive)) = Inr (JInt 1)"
proof -
  have entry: "subscript short_entry_header ''files''
               = Inr (JObject [(''package.json'', JObject [(''size'', JInt 2), (''offset'', JString ''0'')])])"
    "subscript (JObject [(''package.json'', JObject [(''size'', JInt 2), (''offset'', JString ''0'')])])
       (package_json example_env)
     = Inr (JObject [(''size'', JInt 2), (''offset'', JString ''0'')])"
    by (simp_all add: short_entry_header_def subscript_def example_env_def)
  have off: "dict_get (JObject [(''size'', JInt 2), (''offset'', JString ''0'')]) ''offset'' JNull
             = Inr (JString ''0'')"
    "py_int (JString ''0'') = Inr 0"
    by (simp_all add: dict_get_def py_int_def int_of_str_0)
  have sz: "dict_get (JObject [(''size'', JInt 2), (''offset'', JString ''0'')]) ''size'' JNull
            = Inr (JInt 2)" "read_size (JInt 2) = Inr (Some 2)"
    by (simp_all add: dict_get_def read_size_def)
  have len: "length truncated_archive = 67"
    by (rule truncated_length)
  have "extract_package_json example_env (length (handles (world_of truncated_archive)))
          short_entry_header 66
          (new_handle (world_of truncated_archive)
             \<lparr>content = truncated_archive, pos = 66, closed = False\<rparr>)
        = (json_loads_bytes (encode ''1''),
           new_handle (world_of truncated_archive)
             (\<lparr>content = truncated_archive, pos = 66, closed = False\<rparr>
                \<lparr>pos := nat (0 + 66) + length (encode ''1'')\<rparr>))"
    using entry off _ _ sz
    by (rule extract_found)
       (simp_all add: truncated_rest length_encode encode_def world_of_memory)
  from get_asar_info_after_open [OF truncated_opener this]
  have "fst (get_asar_info example_env ''app.asar'' (world_of truncated_archive)) = Inr (JInt 1)"
    by (simp add: truncated_value wrap_extract_def)
  with len sz(1) truncated_opener show ?thesis
    by (simp add: world_of_def)
qed

text \<open>
  Claim C4, amended. Let the entry declare a size \<open>s\<close> that the process can allocate:
  \<open>s\<close> is at most the memory of the process and below \<open>2 ^ 63 - 33\<close>. When the file
  holds fewer than \<open>s\<close> bytes from the entry's absolute offset on, \<^verbatim>\<open>read\<close> returns the
  bytes that are there, and the extraction decodes those: \<^verbatim>\<open>get_asar_info\<close> returns
  their value when they are a JSON text, and fails with a \<^verbatim>\<open>ProcessorError\<close> around the
  decoder's error when they are not. The file is closed in both cases.
\<close>

theorem short_entry_read:
  assumes op: "asar_opener path w = (Inr (length (handles w), hdr, base), new_handle w f)"
    and entry: "subscript hdr ''files'' = Inr fs" "subscript fs (package_json e) = Inr entry"
    and off: "dict_get entry ''offset'' JNull = Inr off" "py_int off = Inr k"
    and abs: "0 \<le> k + base" "k + base < 2 ^ 63"
    and sz: "dict_get entry ''size'' JNull = Inr (JInt s)" "0 \<le> s"
    and alloc: "s \<le> int (memory w)" "s < 2 ^ 63 - 33"
    and short: "int (length (content f)) < k + base + s"
  shows "get_asar_info e path w
         = (wrap_extract (json_loads_bytes (drop (nat (k + base)) (content f))),
            new_handle w (f\<lparr>pos := nat (k + base) + (length (content f) - nat (k + base)),
                            closed := True\<rparr>))"
proof -
  from opener_success [OF op] obtain g where "new_handle w f = new_handle w g" "\<not> closed g"
    by blast
  then have open_f: "\<not> closed f"
    using new_handle_inject by blast
  have all: "take (nat s) (drop (nat (k + base)) (content f)) = drop (nat (k + base)) (content f)"
    using short abs by simp
  have room: "s \<le> int (max (memory w) (length (content f)))"
    using alloc(1) by simp
  have "extract_package_json e (length (handles w)) hdr base (new_handle w f)
        = (json_loads_bytes (drop (nat (k + base)) (content f)),
           new_handle w (f\<lparr>pos := nat (k + base) + length (drop (nat (k + base)) (content f))\<rparr>))"
    using entry off abs sz(1) _ sz(2) alloc(2) room open_f all [symmetric]
    by (rule extract_found) (simp add: read_size_def)
  from get_asar_info_after_open [OF op this] show ?thesis
    by simp
qed

theorem short_entry_read_witness:
  "get_asar_info example_env ''app.asar'' (world_of truncated_archive)
   = (Inr (JInt 1),
      new_handle (world_of truncated_archive)
        \<lparr>content = truncated_archive, pos = 67, closed = True\<rparr>)"
proof -
  have entry: "subscript short_entry_header ''files''
               = Inr (JObject [(''package.json'', JObject [(''size'', JInt 2), (''offset'', JString ''0'')])])"
    "subscript (JObject [(''package.json'', JObject [(''size'', JInt 2), (''offset'', JString ''0'')])])
       (package_json example_env)
     = Inr (JObject [(''size'', JInt 2), (''offset'', JString ''0'')])"
    by (simp_all add: short_entry_header_def subscript_def example_env_def)
  have off: "dict_get (JObject [(''size'', JInt 2), (''offset'', JString ''0'')]) ''offset'' JNull
             = Inr (JString ''0'')"
    "py_int (JString ''0'') = Inr 0"
    by (simp_all add: dict_get_def py_int_def int_of_str_0)
  have sz: "dict_get (JObject [(''size'', JInt 2), (''offset'', JString ''0'')]) ''size'' JNull
            = Inr (JInt 2)"
    by (simp add: dict_get_def)
  have alloc: "2 \<le> int (memory (world_of truncated_archive))"
    by (simp add: world_of_memory)
  have short: "int (length (content \<lparr>content = truncated_archive, pos = 66, closed = False\<rparr>))
               < 0 + 66 + 2"
    by (simp add: truncated_length)
  from short_entry_read [where e = example_env, OF truncated_opener entry off _ _ sz _ alloc _ short]
  show ?thesis
    by (simp add: truncated_rest truncated_value wrap_extract_def truncated_length)
qed

subsection \<open>An entry that the header does not list\<close>

text \<open>
  Claim C5. When the header parsed by \<^verbatim>\<open>_asar_opener\<close> has a \<^verbatim>\<open>files\<close> table without
  the requested name, \<^verbatim>\<open>get_asar_info\<close> fails with a \<^verbatim>\<open>ProcessorError\<close> (the
  \<^verbatim>\<open>KeyError\<close> is wrapped by \<^verbatim>\<open>_extract_package_json\<close>, and that error once more by
  \<^verbatim>\<open>get_asar_info\<close>), and the file is closed.
\<close>

theorem unknown_entry:
  assumes op: "asar_opener path w = (Inr (h, hdr, base), w')"
    and fm: "subscript hdr ''files'' = Inr (JObject fm)"
    and none: "map_of fm (package_json e) = None"
  shows "fst (get_asar_info e path w)
         = Inl (ProcessorError ''Can't extract package info: ''
                 (Some (ProcessorError ''Can't find package JSON: ''
                          (Some (KeyError (package_json e))))))
       \<and> closed (handles (snd (get_asar_info e path w)) ! h)"
proof -
  from opener_success [OF op] obtain f where h: "h = length (handles w)" and w': "w' = new_handle w f"
    by blast
  have "subscript (JObject fm) (package_json e) = Inl (KeyError (package_json e))"
    using none by (simp add: subscript_def)
  from extract_not_found [OF fm this]
  have "extract_package_json e (length (handles w)) hdr base (new_handle w f)
        = (Inl (ProcessorError ''Can't find package JSON: '' (Some (KeyError (package_json e)))),
           new_handle w f)" .
  from get_asar_info_after_open [OF op [unfolded h w'] this] show ?thesis
    by (simp add: wrap_extract_def h)
qed

theorem unknown_entry_witness:
  "fst (get_asar_info example_env ''app.asar'' (world_of no_entry_archive))
   = Inl (ProcessorError ''Can't extract package info: ''
           (Some (ProcessorError ''Can't find package JSON: '' (Some (KeyError ''package.json'')))))
   \<and> closed (handles (snd (get_asar_info example_env ''app.asar'' (world_of no_entry_archive))) ! 0)"
proof -
  have len: "8 \<le> length no_entry_archive"
    by (simp add: no_entry_archive_def archive_length)
  have field: "7 \<le> uint32_le (take 4 (drop 4 no_entry_archive))"
    by (simp add: no_entry_archive_def archive_size_field pack_I_def uint32_le_def)
  have hb: "header_bytes no_entry_archive = encode ''{\"files\":{}}''"
    unfolding no_entry_archive_def
    by (rule header_bytes_archive) (simp add: pack_I_def uint32_le_def)
  have room: "uint32_le (take 4 (drop 4 no_entry_archive)) - 8
              \<le> int (max (memory (world_of no_entry_archive)) (length no_entry_archive))"
    by (simp add: no_entry_archive_def archive_size_field pack_I_def uint32_le_def
          world_of_memory)
  from opener_header [OF world_of_files len field room refl]
  have op: "asar_opener ''app.asar'' (world_of no_entry_archive)
     = (Inr (0, JObject [(''files'', JObject [])], 28),
        new_handle (world_of no_entry_archive)
          \<lparr>content = no_entry_archive, pos = 28, closed = False\<rparr>)"
    by (simp add: hb decode_utf8_encode length_encode no_entry_json cont_def world_of_def)
  have fm: "subscript (JObject [(''files'', JObject [])]) ''files'' = Inr (JObject [])"
    by (simp add: subscript_def)
  have none: "map_of [] (package_json example_env) = (None :: json option)"
    by simp
  from unknown_entry [OF op fm none] show ?thesis
    by (simp add: example_env_def)
qed

text \<open>
  Claim C6. The lookup of \<^verbatim>\<open>_extract_package_json\<close> reads the top-level \<^verbatim>\<open>files\<close> table
  only: a name that is not a key of that table is not found, whatever the table holds
  below its entries and whether or not the name contains a path separator; and when
  the name is a key, the outcome depends on the header through its entry alone.
\<close>

theorem flat_lookup:
  assumes "subscript hdr ''files'' = Inr (JObject fm)"
  shows "(map_of fm (package_json e) = None \<longrightarrow>
            extract_package_json e h hdr base w
            = (Inl (ProcessorError ''Can't find package JSON: ''
                      (Some (KeyError (package_json e)))), w))
       \<and> (\<forall>entry. map_of fm (package_json e) = Some entry \<longrightarrow>
            extract_package_json e h hdr base w
            = extract_package_json e h
                (JObject [(''files'', JObject [(package_json e, entry)])]) base w)"
  using assms
  by (simp add: extract_package_json_def try_except_def lift_def raise_def subscript_def)

theorem flat_lookup_witness:
  "map_of [(''dir'', JObject [(''files'', JObject [(''package.json'',
       JObject [(''size'', JInt 2), (''offset'', JString ''0'')])])])] ''package.json'' = None
   \<and> extract_package_json example_env 0 nested_header 16 empty_world
     = (Inl (ProcessorError ''Can't find package JSON: '' (Some (KeyError ''package.json''))),
        empty_world)
   \<and> extract_package_json (example_env\<lparr>package_json := ''dir/package.json''\<rparr>) 0 nested_header 16
       empty_world
     = (Inl (ProcessorError ''Can't find package JSON: '' (Some (KeyError ''dir/package.json''))),
        empty_world)
   \<and> extract_package_json example_env 0 two_entry_header 16 empty_world
     = extract_package_json example_env 0
         (JObject [(''files'', JObject [(''package.json'',
            JObject [(''size'', JInt 2), (''offset'', JString ''5'')])])]) 16 empty_world"
proof -
  have nested: "subscript nested_header ''files''
            = Inr (JObject [(''dir'', JObject [(''files'', JObject [(''package.json'',
                JObject [(''size'', JInt 2), (''offset'', JString ''0'')])])])])"
    by (simp add: nested_header_def subscript_def)
  have two: "subscript two_entry_header ''files''
            = Inr (JObject
                [(''README'', JObject [(''size'', JInt 5), (''offset'', JString ''0'')]),
                 (''package.json'', JObject [(''size'', JInt 2), (''offset'', JString ''5'')])])"
    by (simp add: two_entry_header_def subscript_def)
  from flat_lookup [OF nested, of example_env 0 16 empty_world]
       flat_lookup [OF nested, of "example_env\<lparr>package_json := ''dir/package.json''\<rparr>" 0 16
         empty_world]
       flat_lookup [OF two, of example_env 0 16 empty_world]
  show ?thesis
    by (simp add: example_env_def)
qed

subsection \<open>The version\<close>

lemma no_version_header_length: "length no_version_header_text = 51"
  by (simp add: no_version_header_text_def)

lemma no_version_json: "json_loads_str no_version_header_text = Inr no_version_header"
  by code_simp

lemma no_version_entry_json:
  "json_decode ''{\"name\":\"x\"}'' = Inr (JObject [(''name'', JString ''x'')])"
  by code_simp

lemma no_version_run:
  "get_asar_info example_env ''app.asar'' (world_of no_version_archive)
   = (Inr (JObject [(''name'', JString ''x'')]),
      new_handle (world_of no_version_archive)
        \<lparr>content = no_version_archive, pos = 79, closed = True\<rparr>)"
proof -
  have fits: "16 + 51 + 0 + 12 \<le> length no_version_archive" "length no_version_archive < 2 ^ 63"
    by (simp_all add: no_version_archive_def archive_length no_version_header_length)
  have field: "uint32_le (take 4 (drop 4 no_version_archive)) = 8 + int 51"
    by (simp add: no_version_archive_def archive_size_field pack_I_def uint32_le_def)
  have dec: "decode_utf8 False (take 51 (drop 16 no_version_archive)) = Inr no_version_header_text"
    using archive_header [of no_version_header_text 59 "''{\"name\":\"x\"}''"]
    by (simp add: no_version_archive_def no_version_header_length decode_utf8_encode)
       (simp add: no_version_header_text_def cont_def)
  have hdr: "no_version_header = JObject [(''files'', JObject [(package_json example_env,
     JObject [(''size'', JInt (int 12)), (''offset'', JString ''0'')])])]"
    by (simp add: no_version_header_def example_env_def)
  have off: "int_of_str ''0'' = Inr (int 0)"
    by (simp add: int_of_str_0)
  have "drop (16 + 51 + 0) no_version_archive = encode ''{\"name\":\"x\"}''"
    using archive_entry [of no_version_header_text 0 59 "''{\"name\":\"x\"}''"]
    by (simp add: no_version_archive_def no_version_header_length)
  then have val: "json_loads_bytes (take 12 (drop (16 + 51 + 0) no_version_archive))
                  = Inr (JObject [(''name'', JString ''x'')])"
    by (simp add: json_loads_bytes_def decode_detected_def encode_simps cont_def Let_def
          no_version_entry_json)
  from well_formed_run [OF world_of_files fits field dec no_version_json hdr off val]
  show ?thesis by simp
qed

text \<open>
  Claim C7. When \<^verbatim>\<open>_read_auto_detect\<close> returns the entry as a JSON object, \<^verbatim>\<open>main\<close>
  succeeds and sets \<^verbatim>\<open>version\<close> to the value of the version key, or to
  \<^verbatim>\<open>UNKNOWN_VERSION\<close> when the object has no such key.
\<close>

theorem default_key_fallback:
  assumes "read_auto_detect (input_asar_path e) (skip_single_root_dir e) (get_asar_info e) w
           = (Inr (JObject kvs), w')"
  shows "main read_auto_detect e w
         = (Inr (e\<lparr>version := Some (case map_of kvs (version_key e) of
                                       None \<Rightarrow> JString UNKNOWN_VERSION
                                     | Some v \<Rightarrow> v)\<rparr>), w')"
  using assms
  by (simp add: main_def try_except_def lift_def ret_def dict_get_def)

theorem default_key_fallback_witness:
  "main read_plain example_env (world_of no_version_archive)
   = (Inr (example_env\<lparr>version := Some (JString ''UNKNOWN_VERSION'')\<rparr>),
      new_handle (world_of no_version_archive)
        \<lparr>content = no_version_archive, pos = 79, closed = True\<rparr>)
   \<and> main read_plain example_env (world_of good_archive)
   = (Inr (example_env\<lparr>version := Some (JString ''1.2'')\<rparr>),
      new_handle (world_of good_archive) \<lparr>content = good_archive, pos = 87, closed = True\<rparr>)"
proof -
  have absent: "read_plain (input_asar_path example_env) (skip_single_root_dir example_env)
          (get_asar_info example_env) (world_of no_version_archive)
        = (Inr (JObject [(''name'', JString ''x'')]),
           new_handle (world_of no_version_archive)
             \<lparr>content = no_version_archive, pos = 79, closed = True\<rparr>)"
    using no_version_run by (simp add: read_plain_def example_env_def)
  have present: "read_plain (input_asar_path example_env) (skip_single_root_dir example_env)
          (get_asar_info example_env) (world_of good_archive)
        = (Inr (JObject [(''version'', JString ''1.2'')]),
           new_handle (world_of good_archive) \<lparr>content = good_archive, pos = 87, closed = True\<rparr>)"
    using good_run by (simp add: read_plain_def example_env_def)
  from default_key_fallback [where read_auto_detect = read_plain and e = example_env, OF absent]
       default_key_fallback [where read_auto_detect = read_plain and e = example_env, OF present]
  show ?thesis
    by (simp add: example_env_def UNKNOWN_VERSION_def)
qed

end
